theory Spec2Isabelle
  imports Complex_Main
begin

section \<open>JavaScript values\<close>

text \<open>
  The values that reach the client: \<open>undefined\<close>, \<open>null\<close>, booleans, numbers, strings,
  arrays and plain objects. A number is \<open>Num n\<close>, the double nearest to the integer
  \<open>n\<close> (the documented numeric inputs, channels, limits and minutes, are integers, and
  timestamps are results of \<open>Math.round\<close>), or \<open>NaN\<close>. An object is an association list in
  insertion order, as \<open>Object.keys\<close> enumerates it.
\<close>

datatype jsval =
    Undefined
  | Null
  | Bool bool
  | Num int
  | NaN
  | Str string
  | Arr "jsval list"
  | Obj "(string \<times> jsval) list"

type_synonym obj = "(string \<times> jsval) list"

text \<open>
  A \<open>Date\<close> object holds a time value: an integral number of milliseconds since the epoch,
  or \<open>NaN\<close> for an invalid date (\<open>new Date(NaN)\<close>).
\<close>

datatype jsdate = Date int | InvalidDate

subsection \<open>Property assignment and lookup\<close>

text \<open>\<open>o[k] = v\<close>: an existing key keeps its place, a new key is added last.\<close>

fun obj_set :: "obj \<Rightarrow> string \<Rightarrow> jsval \<Rightarrow> obj" where
  "obj_set [] k v = [(k, v)]"
| "obj_set ((k', v') # ps) k v =
     (if k' = k then (k, v) # ps else (k', v') # obj_set ps k v)"

definition obj_keys :: "obj \<Rightarrow> string list" where
  "obj_keys ps = map fst ps"

text \<open>
  \<open>v.k\<close>: reading a property of \<open>undefined\<close> or \<open>null\<close> raises a TypeError (\<open>None\<close>);
  a missing property reads as \<open>undefined\<close>. Primitives and arrays have no property of
  the names read here.
\<close>

fun get_prop :: "jsval \<Rightarrow> string \<Rightarrow> jsval option" where
  "get_prop Undefined k = None"
| "get_prop Null k = None"
| "get_prop (Obj ps) k = (case map_of ps k of None \<Rightarrow> Some Undefined | Some v \<Rightarrow> Some v)"
| "get_prop v k = Some Undefined"

subsection \<open>String conversion\<close>

definition digit_char :: "nat \<Rightarrow> char" where
  "digit_char n = ''0123456789'' ! (n mod 10)"

text \<open>The decimal digits of an integer that is not negative.\<close>

function decimal :: "int \<Rightarrow> string" where
  "decimal n =
     (if n < 10 then [digit_char (nat n)]
      else decimal (n div 10) @ [digit_char (nat (n mod 10))])"
  by pat_completeness auto
termination
  by (relation "measure nat") auto

declare decimal.simps [simp del]

definition string_of_nat :: "nat \<Rightarrow> string" where
  "string_of_nat n = decimal (int n)"

fun join :: "string \<Rightarrow> string list \<Rightarrow> string" where
  "join sep [] = []"
| "join sep [x] = x"
| "join sep (x # y # ys) = x @ sep @ join sep (y # ys)"

text \<open>
  \<open>String(x)\<close> for a number. \<open>Num n\<close> is the double nearest to \<open>n\<close>: \<open>n\<close> itself
  below \<open>2^53\<close>, and beyond that \<open>n\<close> rounded to 53 significant bits, to the nearer
  neighbour and to the even one at a tie.
\<close>

function bit_length :: "int \<Rightarrow> nat" where
  "bit_length n = (if n \<le> 0 then 0 else bit_length (n div 2) + 1)"
  by pat_completeness auto
termination
  by (relation "measure nat") auto

declare bit_length.simps [simp del]

definition round_half_even :: "int \<Rightarrow> int \<Rightarrow> int \<Rightarrow> int" where
  "round_half_even q r half = (if half < r \<or> (r = half \<and> odd q) then q + 1 else q)"

definition round_to :: "int \<Rightarrow> nat \<Rightarrow> int" where
  "round_to n e = round_half_even (n div 2 ^ e) (n mod 2 ^ e) (2 ^ (e - 1)) * 2 ^ e"

definition to_double :: "int \<Rightarrow> int" where
  "to_double n = (if n < 2 ^ 53 then n else round_to n (bit_length n - 53))"

text \<open>
  JavaScript prints the decimal number with the fewest significant digits that still
  denotes the double, the closest such one (the one with an even last digit if two are as
  close). For a number of \<open>k\<close> significant digits this is a multiple of a power of ten:
  \<open>shortest_aux v j\<close> tries the multiple of \<open>10^j\<close> below \<open>v\<close> and the one above, and
  goes on with \<open>10^(j-1)\<close> if neither denotes \<open>v\<close>; \<open>v\<close> itself is a multiple of
  \<open>10^0\<close>.
\<close>

definition denotes :: "int \<Rightarrow> int \<Rightarrow> bool" where
  "denotes c v = (0 < c \<and> to_double c = v)"

definition closest :: "int \<Rightarrow> int \<Rightarrow> int \<Rightarrow> int \<Rightarrow> int" where
  "closest v q lo hi =
     (if v - lo < hi - v then lo
      else if hi - v < v - lo then hi
      else if even (lo div q) then lo else hi)"

definition candidate :: "int \<Rightarrow> int \<Rightarrow> int \<Rightarrow> bool \<Rightarrow> bool \<Rightarrow> int option" where
  "candidate v q lo lo_ok hi_ok =
     (if lo_ok \<and> hi_ok then Some (closest v q lo (lo + q))
      else if lo_ok then Some lo
      else if hi_ok then Some (lo + q)
      else None)"

fun shortest_aux :: "int \<Rightarrow> nat \<Rightarrow> int" where
  "shortest_aux v j =
     (if j = 0 then v
      else (case candidate v (10 ^ j) (v div 10 ^ j * 10 ^ j)
                   (denotes (v div 10 ^ j * 10 ^ j) v)
                   (denotes (v div 10 ^ j * 10 ^ j + 10 ^ j) v) of
              Some c \<Rightarrow> c
            | None \<Rightarrow> shortest_aux v (j - 1)))"

declare shortest_aux.simps [simp del]

definition shortest :: "int \<Rightarrow> int" where
  "shortest v = shortest_aux v (length (decimal v) - 1)"

text \<open>
  The number is written with all its digits when it has at most 21, and in exponent
  notation beyond: the significant digits, a point after the first if there are more,
  and the exponent. What lies beyond the doubles prints as \<open>Infinity\<close>. Up to \<open>2^53\<close>
  every integer is a double of its own, and the digits are its own.
\<close>

definition strip_zeros :: "string \<Rightarrow> string" where
  "strip_zeros s = rev (dropWhile (\<lambda>c. c = CHR ''0'') (rev s))"

definition exponent_form :: "string \<Rightarrow> nat \<Rightarrow> string" where
  "exponent_form ds e =
     (case ds of
        [] \<Rightarrow> ''0''
      | [d] \<Rightarrow> [d] @ ''e+'' @ string_of_nat e
      | d # ds' \<Rightarrow> [d] @ ''.'' @ ds' @ ''e+'' @ string_of_nat e)"

definition format_digits :: "string \<Rightarrow> string" where
  "format_digits s =
     (if length s \<le> 21 then s else exponent_form (strip_zeros s) (length s - 1))"

definition magnitude_string :: "int \<Rightarrow> string" where
  "magnitude_string n =
     (if n \<le> 2 ^ 53 then decimal n
      else if 2 ^ 1024 \<le> to_double n then ''Infinity''
      else format_digits (decimal (shortest (to_double n))))"

definition js_number_string :: "int \<Rightarrow> string" where
  "js_number_string i =
     (if i < 0 then CHR ''-'' # magnitude_string (- i) else magnitude_string i)"

text \<open>
  \<open>String(v)\<close>, which a template literal \<open>`${v}`\<close> applies; \<open>None\<close> is the TypeError it
  raises. An array joins its elements with commas, \<open>null\<close> and \<open>undefined\<close> elements
  printing as the empty string. A plain object prints as \<open>[object Object]\<close> through the
  \<open>toString\<close> it inherits; a property \<open>toString\<close> of its own hides that one, and since
  the values here hold no function, nothing that can be called is left and the conversion
  raises.
\<close>

fun js_toString :: "jsval \<Rightarrow> string option"
  and js_elements :: "jsval list \<Rightarrow> string list option"
where
  "js_toString Undefined = Some ''undefined''"
| "js_toString Null = Some ''null''"
| "js_toString (Bool b) = Some (if b then ''true'' else ''false'')"
| "js_toString (Num n) = Some (js_number_string n)"
| "js_toString NaN = Some ''NaN''"
| "js_toString (Str s) = Some s"
| "js_toString (Arr xs) = map_option (join '','') (js_elements xs)"
| "js_toString (Obj ps) =
     (if ''toString'' \<in> set (map fst ps) then None else Some ''[object Object]'')"
| "js_elements [] = Some []"
| "js_elements (x # xs) =
     (case (if x = Undefined \<or> x = Null then Some [] else js_toString x) of
        None \<Rightarrow> None
      | Some s \<Rightarrow> map_option ((#) s) (js_elements xs))"

section \<open>utils.js\<close>

text \<open>
  \<^verbatim>\<open>function buildAuthorizedRequestHeaders(token) {
    return { 'Content-Type': 'application/json', Authorization: `Bearer ${token}` };
  }\<close>
  The template literal raises when the token has no string conversion.
\<close>

type_synonym headers = "(string \<times> string) list"

definition buildAuthorizedRequestHeaders :: "jsval \<Rightarrow> headers option" where
  "buildAuthorizedRequestHeaders token =
     map_option
       (\<lambda>str. [(''Content-Type'', ''application/json''), (''Authorization'', ''Bearer '' @ str)])
       (js_toString token)"

text \<open>
  \<open>Math.round(x)\<close> is the integer closest to \<open>x\<close>, the larger one at a tie.
\<close>

definition Math_round :: "real \<Rightarrow> int" where
  "Math_round x = \<lfloor>x + 1 / 2\<rfloor>"

text \<open>
  \<^verbatim>\<open>function dateToTimestamp(date) { return Math.round(date.getTime() / 1000); }\<close>

  The time value of a valid date is an integer of magnitude at most \<open>8.64 * 10^15\<close>, below
  \<open>2^53\<close>, so the quotient is the double nearest to the exact one. Doubles of that size
  are less than \<open>1/1000\<close> apart and every half-integer is one of them, so the double lies on
  the same side of each half-integer as the exact quotient: rounding the exact quotient
  gives the integer JavaScript computes. An invalid date has time value \<open>NaN\<close>, which
  division and \<open>Math.round\<close> pass on.
\<close>

fun getTime :: "jsdate \<Rightarrow> int option" where
  "getTime (Date ms) = Some ms"
| "getTime InvalidDate = None"

definition dateToTimestamp :: "jsdate \<Rightarrow> jsval" where
  "dateToTimestamp date =
     (case getTime date of
        None \<Rightarrow> NaN
      | Some ms \<Rightarrow> Num (Math_round (real_of_int ms / 1000)))"

text \<open>
  \<open>Date.prototype.toISOString\<close>: the UTC calendar fields of the time value, as
  \<open>YYYY-MM-DDTHH:mm:ss.sssZ\<close>; a year outside 0..9999 is written with a sign and six
  digits. An invalid date raises a RangeError (\<open>None\<close>). The calendar date of a day
  number is computed in 400-year eras of 146097 days, with the year starting in March.
\<close>

text \<open>\<open>pad w n\<close>: the last \<open>w\<close> decimal digits of \<open>n\<close>, zero-filled.\<close>

fun pad :: "nat \<Rightarrow> nat \<Rightarrow> string" where
  "pad 0 n = []"
| "pad (Suc w) n = pad w (n div 10) @ [digit_char (n mod 10)]"

definition civil_from_days :: "int \<Rightarrow> int \<times> int \<times> int" where
  "civil_from_days days =
     (let z = days + 719468;
          era = z div 146097;
          doe = z - era * 146097;
          yoe = (doe - doe div 1460 + doe div 36524 - doe div 146096) div 365;
          doy = doe - (365 * yoe + yoe div 4 - yoe div 100);
          mp = (5 * doy + 2) div 153;
          d = doy - (153 * mp + 2) div 5 + 1;
          m = (if mp < 10 then mp + 3 else mp - 9);
          y = yoe + era * 400 + (if m \<le> 2 then 1 else 0)
      in (y, m, d))"

definition year_string :: "int \<Rightarrow> string" where
  "year_string y =
     (if 0 \<le> y \<and> y \<le> 9999 then pad 4 (nat y)
      else (if y < 0 then ''-'' else ''+'') @ pad 6 (nat \<bar>y\<bar>))"

definition time_string :: "int \<Rightarrow> string" where
  "time_string t =
     pad 2 (nat (t div 3600000)) @ '':'' @ pad 2 (nat (t div 60000 mod 60)) @ '':'' @
     pad 2 (nat (t div 1000 mod 60)) @ ''.'' @ pad 3 (nat (t mod 1000))"

definition iso_of_ms :: "int \<Rightarrow> string" where
  "iso_of_ms ms =
     (case civil_from_days (ms div 86400000) of
        (y, m, d) \<Rightarrow>
          year_string y @ ''-'' @ pad 2 (nat m) @ ''-'' @ pad 2 (nat d) @ ''T'' @
          time_string (ms mod 86400000) @ ''Z'')"

definition toISOString :: "jsdate \<Rightarrow> string option" where
  "toISOString date = (case getTime date of None \<Rightarrow> None | Some ms \<Rightarrow> Some (iso_of_ms ms))"

text \<open>
  \<^verbatim>\<open>function authorizedApiRequest(token, f) {
    if (token === undefined) { return Promise.reject('Cannot call this method ...'); }
    return f();
  }\<close>

  A result is what the caller gets back together with the requests handed to the
  transport on the way.
\<close>

record config =
  c_headers :: "headers option"
  c_params :: "obj option"
  c_paramsSerializer :: "(obj \<Rightarrow> string) option"
  c_auth :: "(jsval \<times> jsval) option"

datatype request =
    Get string config
  | Post string jsval config
  | Patch string jsval config

datatype outcome =
    Resolves jsval
  | Rejects jsval
  | RejectsTypeError
  | ThrowsRangeError

type_synonym result = "outcome \<times> request list"

definition unauthorized_message :: string where
  "unauthorized_message =
     ''Cannot call this method without setting the authorization token '' @
     ''(in the constructor or using the authorize method).''"

definition authorizedApiRequest :: "jsval \<Rightarrow> (unit \<Rightarrow> result) \<Rightarrow> result" where
  "authorizedApiRequest token f =
     (if token = Undefined then (Rejects (Str unauthorized_message), []) else f ())"

section \<open>The query string serializer\<close>

text \<open>
  Modelled from the spec: the library function \<open>qs.stringify\<close>, which \<open>getStreams\<close>
  installs as \<open>paramsSerializer\<close> with the option \<open>indices: false\<close>, is not part of
  the sources. A list value is serialized as its key repeated once per element
  (\<open>channel=1&channel=2&channel=3\<close>); with \<open>indices\<close> left on, the library's default, each
  element's key carries its index in brackets. Keys and values are percent-encoded except
  for letters, digits and \<open>- . _ ~\<close>; \<open>undefined\<close> is left out, \<open>null\<close> is the empty value,
  and the pairs are joined with \<open>&\<close>.
\<close>

definition hex_char :: "nat \<Rightarrow> char" where
  "hex_char n = ''0123456789ABCDEF'' ! (n mod 16)"

definition hex_byte :: "nat \<Rightarrow> string" where
  "hex_byte n = [CHR ''%'', hex_char (n div 16), hex_char (n mod 16)]"

definition unreserved :: "char \<Rightarrow> bool" where
  "unreserved c =
     (let n = (of_char c :: nat)
      in n = 45 \<or> n = 46 \<or> n = 95 \<or> n = 126 \<or> (48 \<le> n \<and> n \<le> 57) \<or>
         (65 \<le> n \<and> n \<le> 90) \<or> (97 \<le> n \<and> n \<le> 122))"

definition qs_encode_char :: "char \<Rightarrow> string" where
  "qs_encode_char c =
     (let n = (of_char c :: nat)
      in if unreserved c then [c]
         else if n < 128 then hex_byte n
         else hex_byte (192 + n div 64) @ hex_byte (128 + n mod 64))"

definition qs_encode :: "string \<Rightarrow> string" where
  "qs_encode s = concat (map qs_encode_char s)"

fun qs_value :: "bool \<Rightarrow> string \<Rightarrow> jsval \<Rightarrow> string list"
  and qs_elems :: "bool \<Rightarrow> string \<Rightarrow> nat \<Rightarrow> jsval list \<Rightarrow> string list"
  and qs_props :: "bool \<Rightarrow> string \<Rightarrow> obj \<Rightarrow> string list"
where
  "qs_value indices prefix Undefined = []"
| "qs_value indices prefix Null = [qs_encode prefix @ ''='' @ qs_encode []]"
| "qs_value indices prefix (Bool b) =
     [qs_encode prefix @ ''='' @ qs_encode (if b then ''true'' else ''false'')]"
| "qs_value indices prefix (Num n) = [qs_encode prefix @ ''='' @ qs_encode (js_number_string n)]"
| "qs_value indices prefix NaN = [qs_encode prefix @ ''='' @ qs_encode ''NaN'']"
| "qs_value indices prefix (Str s) = [qs_encode prefix @ ''='' @ qs_encode s]"
| "qs_value indices prefix (Arr xs) = qs_elems indices prefix 0 xs"
| "qs_value indices prefix (Obj ps) = qs_props indices prefix ps"
| "qs_elems indices prefix i [] = []"
| "qs_elems indices prefix i (x # xs) =
     qs_value indices (if indices then prefix @ ''['' @ string_of_nat i @ '']'' else prefix) x @
     qs_elems indices prefix (Suc i) xs"
| "qs_props indices prefix [] = []"
| "qs_props indices prefix ((k, v) # ps) =
     qs_value indices (prefix @ ''['' @ k @ '']'') v @ qs_props indices prefix ps"

fun qs_keys :: "bool \<Rightarrow> obj \<Rightarrow> string list" where
  "qs_keys indices [] = []"
| "qs_keys indices ((k, v) # ps) = qs_value indices k v @ qs_keys indices ps"

definition qs_stringify :: "obj \<Rightarrow> bool \<Rightarrow> string" where
  "qs_stringify ps indices = join ''&'' (qs_keys indices ps)"

section \<open>Energomonitor.js\<close>

subsection \<open>Endpoints\<close>

text \<open>
  The identifiers are strings, as the methods document them; a template literal leaves a
  string as it is.
\<close>

definition url_auth :: string where
  "url_auth = ''/authorizations''"

definition url_user :: "string \<Rightarrow> string" where
  "url_user userId = ''/users/'' @ userId"

definition url_feeds :: "string \<Rightarrow> string" where
  "url_feeds userId = ''/users/'' @ userId @ ''/feeds''"

definition url_feed :: "string \<Rightarrow> string" where
  "url_feed feedId = ''/feeds/'' @ feedId"

definition url_streams :: "string \<Rightarrow> string" where
  "url_streams feedId = ''/feeds/'' @ feedId @ ''/streams''"

definition url_stream :: "string \<Rightarrow> string \<Rightarrow> string" where
  "url_stream feedId streamId =
     ''/feeds/'' @ feedId @ ''/streams/'' @ streamId"

definition url_streamData :: "string \<Rightarrow> string \<Rightarrow> string" where
  "url_streamData feedId streamId =
     ''/feeds/'' @ feedId @ ''/streams/'' @ streamId @ ''/data''"

definition url_relatedStreams :: "string \<Rightarrow> string" where
  "url_relatedStreams feedId = ''/feeds/'' @ feedId @ ''/related_streams''"

definition url_notifications :: "string \<Rightarrow> string" where
  "url_notifications userId = ''/users/'' @ userId @ ''/notifications''"

definition url_notification :: "string \<Rightarrow> string \<Rightarrow> string" where
  "url_notification userId notificationId =
     ''/users/'' @ userId @ ''/notifications/'' @ notificationId"

definition url_notificationCount :: "string \<Rightarrow> string" where
  "url_notificationCount userId = ''/users/'' @ userId @ ''/notification_count''"

subsection \<open>The session and its transport\<close>

text \<open>
  The axios instance is an object shared with the caller who passed it in, so instances
  live in a store and the session holds a reference. Of an instance's defaults only
  \<open>baseURL\<close> is read or written here. What the instance answers to a request is a
  function of the request: the response body of a fulfilled call, or the error of a
  failed one.
\<close>

record axios_instance =
  baseURL :: jsval

type_synonym store = "axios_instance list"

datatype response = Fulfilled jsval | Failed jsval

type_synonym transport = "request \<Rightarrow> response"

record session =
  s_token :: jsval
  s_authorizedRequestHeaders :: headers
  s_axios :: nat

definition axios_create :: "store \<Rightarrow> nat \<times> store" where
  "axios_create h = (length h, h @ [\<lparr>baseURL = Undefined\<rparr>])"

definition default_apiURL :: string where
  "default_apiURL = ''https://api.energomonitor.com/v1''"

text \<open>
  \<^verbatim>\<open>constructor(token, axiosInstance, apiURL = 'https://api.energomonitor.com/v1') {
    this._token = token;
    this._authorizedRequestHeaders = buildAuthorizedRequestHeaders(token);
    if (axiosInstance !== undefined) { this._axios = axiosInstance; }
    else { this._axios = axios.create(); }
    this._axios.defaults['baseURL'] = apiURL;
  }\<close>
  An omitted argument is \<open>undefined\<close> (\<open>None\<close> for the instance reference). A
  reference passed in points to an instance of the store. The fields \<open>_token\<close>,
  \<open>_authorizedRequestHeaders\<close> and \<open>_axios\<close> are \<open>s_token\<close>,
  \<open>s_authorizedRequestHeaders\<close> and \<open>s_axios\<close>. When building the headers
  raises, the constructor is left at that point: there is no session (\<open>None\<close>) and the
  store is as it was.
\<close>

definition constructor ::
  "store \<Rightarrow> jsval \<Rightarrow> nat option \<Rightarrow> jsval \<Rightarrow> (session \<times> store) option"
where
  "constructor h token axiosInstance apiURL_arg =
     (case buildAuthorizedRequestHeaders token of
        None \<Rightarrow> None
      | Some hs \<Rightarrow>
          (let apiURL = (if apiURL_arg = Undefined then Str default_apiURL else apiURL_arg);
               (r, h1) = (case axiosInstance of Some r \<Rightarrow> (r, h) | None \<Rightarrow> axios_create h);
               h2 = h1[r := (h1 ! r)\<lparr>baseURL := apiURL\<rparr>]
           in Some (\<lparr>s_token = token, s_authorizedRequestHeaders = hs, s_axios = r\<rparr>, h2)))"

definition getAxiosInstance :: "session \<Rightarrow> nat" where
  "getAxiosInstance s = s_axios s"

text \<open>
  \<open>this._axios.get(url, config).then(k)\<close>, and likewise for \<open>post\<close> and \<open>patch\<close>: the
  request is handed to the transport; a fulfilled call resolves to \<open>k\<close> of the response
  body, a failed one rejects with the transport's error.
\<close>

definition axios_then :: "transport \<Rightarrow> request \<Rightarrow> (jsval \<Rightarrow> jsval) \<Rightarrow> result" where
  "axios_then tr req k =
     (case tr req of
        Fulfilled d \<Rightarrow> (Resolves (k d), [req])
      | Failed e \<Rightarrow> (Rejects e, [req]))"

definition headers_config :: "session \<Rightarrow> config" where
  "headers_config s =
     \<lparr>c_headers = Some (s_authorizedRequestHeaders s), c_params = None,
      c_paramsSerializer = None, c_auth = None\<rparr>"

subsection \<open>authorize\<close>

definition authorize_data :: "jsval \<Rightarrow> jsval \<Rightarrow> jsval \<Rightarrow> obj" where
  "authorize_data note resources validMinutes =
     (let data = [];
          data = (if note \<noteq> Undefined then obj_set data ''note'' note else data);
          data = (if resources \<noteq> Undefined then obj_set data ''resources'' resources else data);
          data = (if validMinutes \<noteq> Undefined
                  then obj_set data ''valid_minutes'' validMinutes else data)
      in data)"

definition authorize_request :: "jsval \<Rightarrow> jsval \<Rightarrow> jsval \<Rightarrow> jsval \<Rightarrow> jsval \<Rightarrow> request" where
  "authorize_request username password note resources validMinutes =
     Post url_auth (Obj (authorize_data note resources validMinutes))
       \<lparr>c_headers = None, c_params = None, c_paramsSerializer = None,
        c_auth = Some (username, password)\<rparr>"

text \<open>
  The callback of \<open>then\<close> reads \<open>response.data.token\<close>, stores it, stores the headers
  built from it, and returns the body. If the body is \<open>undefined\<close> or \<open>null\<close> the read
  raises before anything is stored; if the token has no string conversion, building the
  headers raises after the token is stored and before the headers are. Either way the
  promise rejects with the TypeError.
\<close>

definition authorize ::
  "session \<Rightarrow> jsval \<Rightarrow> jsval \<Rightarrow> jsval \<Rightarrow> jsval \<Rightarrow> jsval \<Rightarrow> transport \<Rightarrow> session \<times> result"
where
  "authorize s username password note resources validMinutes tr =
     (let req = authorize_request username password note resources validMinutes
      in case tr req of
           Failed e \<Rightarrow> (s, Rejects e, [req])
         | Fulfilled d \<Rightarrow>
             (case get_prop d ''token'' of
                None \<Rightarrow> (s, RejectsTypeError, [req])
              | Some token \<Rightarrow>
                  (case buildAuthorizedRequestHeaders token of
                     None \<Rightarrow> (s\<lparr>s_token := token\<rparr>, RejectsTypeError, [req])
                   | Some hs \<Rightarrow>
                       (s\<lparr>s_token := token, s_authorizedRequestHeaders := hs\<rparr>,
                        Resolves d, [req]))))"

subsection \<open>The gated operations\<close>

definition getUser :: "session \<Rightarrow> string \<Rightarrow> transport \<Rightarrow> result" where
  "getUser s userId tr =
     authorizedApiRequest (s_token s)
       (\<lambda>_. axios_then tr (Get (url_user userId) (headers_config s)) (\<lambda>d. d))"

definition getFeeds :: "session \<Rightarrow> string \<Rightarrow> transport \<Rightarrow> result" where
  "getFeeds s userId tr =
     authorizedApiRequest (s_token s)
       (\<lambda>_. axios_then tr (Get (url_feeds userId) (headers_config s)) (\<lambda>d. d))"

definition getFeed :: "session \<Rightarrow> string \<Rightarrow> transport \<Rightarrow> result" where
  "getFeed s feedId tr =
     authorizedApiRequest (s_token s)
       (\<lambda>_. axios_then tr (Get (url_feed feedId) (headers_config s)) (\<lambda>d. d))"

definition getStreams_params ::
  "jsval \<Rightarrow> jsval \<Rightarrow> jsdate option \<Rightarrow> jsdate option \<Rightarrow> obj"
where
  "getStreams_params types channels dataTimeFrom dataTimeTo =
     (let params = [];
          params = (if types \<noteq> Undefined then obj_set params ''type'' types else params);
          params = (if channels \<noteq> Undefined then obj_set params ''channel'' channels else params);
          params = (case dataTimeFrom of
                      None \<Rightarrow> params
                    | Some d \<Rightarrow> obj_set params ''data_time_from'' (dateToTimestamp d));
          params = (case dataTimeTo of
                      None \<Rightarrow> params
                    | Some d \<Rightarrow> obj_set params ''data_time_to'' (dateToTimestamp d))
      in params)"

definition getStreams_serializer :: "obj \<Rightarrow> string" where
  "getStreams_serializer params = qs_stringify params False"

definition getStreams ::
  "session \<Rightarrow> string \<Rightarrow> jsval \<Rightarrow> jsval \<Rightarrow> jsdate option \<Rightarrow> jsdate option \<Rightarrow> transport \<Rightarrow> result"
where
  "getStreams s feedId types channels dataTimeFrom dataTimeTo tr =
     (let config =
            \<lparr>c_headers = Some (s_authorizedRequestHeaders s),
             c_params = Some (getStreams_params types channels dataTimeFrom dataTimeTo),
             c_paramsSerializer = Some getStreams_serializer,
             c_auth = None\<rparr>
      in authorizedApiRequest (s_token s)
           (\<lambda>_. axios_then tr (Get (url_streams feedId) config) (\<lambda>d. d)))"

definition getStream :: "session \<Rightarrow> string \<Rightarrow> string \<Rightarrow> transport \<Rightarrow> result" where
  "getStream s feedId streamId tr =
     authorizedApiRequest (s_token s)
       (\<lambda>_. axios_then tr (Get (url_stream feedId streamId) (headers_config s)) (\<lambda>d. d))"

definition getStreamData_params :: "jsdate option \<Rightarrow> jsdate option \<Rightarrow> jsval \<Rightarrow> obj" where
  "getStreamData_params timeFrom timeTo limit =
     (let params = [];
          params = (if limit \<noteq> Undefined then obj_set params ''limit'' limit else params);
          params = (case timeFrom of
                      None \<Rightarrow> params
                    | Some d \<Rightarrow> obj_set params ''time_from'' (dateToTimestamp d));
          params = (case timeTo of
                      None \<Rightarrow> params
                    | Some d \<Rightarrow> obj_set params ''time_to'' (dateToTimestamp d))
      in params)"

definition getStreamData ::
  "session \<Rightarrow> string \<Rightarrow> string \<Rightarrow> jsdate option \<Rightarrow> jsdate option \<Rightarrow> jsval \<Rightarrow> transport \<Rightarrow> result"
where
  "getStreamData s feedId streamId timeFrom timeTo limit tr =
     (let config =
            \<lparr>c_headers = Some (s_authorizedRequestHeaders s),
             c_params = Some (getStreamData_params timeFrom timeTo limit),
             c_paramsSerializer = None,
             c_auth = None\<rparr>
      in authorizedApiRequest (s_token s)
           (\<lambda>_. axios_then tr (Get (url_streamData feedId streamId) config) (\<lambda>d. d)))"

definition getRelatedStreams :: "session \<Rightarrow> string \<Rightarrow> transport \<Rightarrow> result" where
  "getRelatedStreams s feedId tr =
     authorizedApiRequest (s_token s)
       (\<lambda>_. axios_then tr (Get (url_relatedStreams feedId) (headers_config s)) (\<lambda>d. d))"

text \<open>
  \<open>getNotifications\<close> calls \<open>createdAtFrom.toISOString()\<close> while it builds the
  parameters, before the token is looked at: on an invalid date the RangeError leaves the
  method at that point.
\<close>

definition getNotifications_params :: "jsdate option \<Rightarrow> obj option" where
  "getNotifications_params createdAtFrom =
     (case createdAtFrom of
        None \<Rightarrow> Some []
      | Some d \<Rightarrow>
          (case toISOString d of
             None \<Rightarrow> None
           | Some str \<Rightarrow> Some (obj_set [] ''created_at_from'' (Str str))))"

definition getNotifications :: "session \<Rightarrow> string \<Rightarrow> jsdate option \<Rightarrow> transport \<Rightarrow> result" where
  "getNotifications s userId createdAtFrom tr =
     (case getNotifications_params createdAtFrom of
        None \<Rightarrow> (ThrowsRangeError, [])
      | Some params \<Rightarrow>
          (let config =
                 \<lparr>c_headers = Some (s_authorizedRequestHeaders s),
                  c_params = Some params,
                  c_paramsSerializer = None,
                  c_auth = None\<rparr>
           in authorizedApiRequest (s_token s)
                (\<lambda>_. axios_then tr (Get (url_notifications userId) config) (\<lambda>d. d))))"

definition getNotification :: "session \<Rightarrow> string \<Rightarrow> string \<Rightarrow> transport \<Rightarrow> result" where
  "getNotification s userId notificationId tr =
     authorizedApiRequest (s_token s)
       (\<lambda>_. axios_then tr (Get (url_notification userId notificationId) (headers_config s))
              (\<lambda>d. d))"

definition updateNotifications :: "session \<Rightarrow> string \<Rightarrow> jsval \<Rightarrow> transport \<Rightarrow> result" where
  "updateNotifications s userId data tr =
     authorizedApiRequest (s_token s)
       (\<lambda>_. axios_then tr (Patch (url_notifications userId) data (headers_config s))
              (\<lambda>d. Null))"

definition updateNotification ::
  "session \<Rightarrow> string \<Rightarrow> string \<Rightarrow> jsval \<Rightarrow> transport \<Rightarrow> result"
where
  "updateNotification s userId notificationId data tr =
     authorizedApiRequest (s_token s)
       (\<lambda>_. axios_then tr (Patch (url_notification userId notificationId) data (headers_config s))
              (\<lambda>d. d))"

definition getNotificationCount :: "session \<Rightarrow> string \<Rightarrow> transport \<Rightarrow> result" where
  "getNotificationCount s userId tr =
     authorizedApiRequest (s_token s)
       (\<lambda>_. axios_then tr (Get (url_notificationCount userId) (headers_config s)) (\<lambda>d. d))"

subsection \<open>Calls on a session\<close>

text \<open>
  One constructor per method, with the method's arguments. \<open>perform\<close> runs a call to
  completion and returns the session afterwards: only \<open>authorize\<close> assigns to a field.
  \<open>run\<close> performs calls one after the other, each against what the transport answers at
  that time, and collects the requests.
\<close>

datatype call =
    Authorize jsval jsval jsval jsval jsval
  | GetUser string
  | GetFeeds string
  | GetFeed string
  | GetStreams string jsval jsval "jsdate option" "jsdate option"
  | GetStream string string
  | GetStreamData string string "jsdate option" "jsdate option" jsval
  | GetRelatedStreams string
  | GetNotifications string "jsdate option"
  | GetNotification string string
  | UpdateNotifications string jsval
  | UpdateNotification string string jsval
  | GetNotificationCount string

fun is_authorize :: "call \<Rightarrow> bool" where
  "is_authorize (Authorize u p n r v) = True"
| "is_authorize c = False"

fun perform :: "session \<Rightarrow> call \<Rightarrow> transport \<Rightarrow> session \<times> result" where
  "perform s (Authorize u p n r v) tr = authorize s u p n r v tr"
| "perform s (GetUser userId) tr = (s, getUser s userId tr)"
| "perform s (GetFeeds userId) tr = (s, getFeeds s userId tr)"
| "perform s (GetFeed feedId) tr = (s, getFeed s feedId tr)"
| "perform s (GetStreams feedId types channels df dt) tr =
     (s, getStreams s feedId types channels df dt tr)"
| "perform s (GetStream feedId streamId) tr = (s, getStream s feedId streamId tr)"
| "perform s (GetStreamData feedId streamId tf tt limit) tr =
     (s, getStreamData s feedId streamId tf tt limit tr)"
| "perform s (GetRelatedStreams feedId) tr = (s, getRelatedStreams s feedId tr)"
| "perform s (GetNotifications userId caf) tr = (s, getNotifications s userId caf tr)"
| "perform s (GetNotification userId nid) tr = (s, getNotification s userId nid tr)"
| "perform s (UpdateNotifications userId data) tr = (s, updateNotifications s userId data tr)"
| "perform s (UpdateNotification userId nid data) tr =
     (s, updateNotification s userId nid data tr)"
| "perform s (GetNotificationCount userId) tr = (s, getNotificationCount s userId tr)"

definition state_after :: "session \<times> result \<Rightarrow> session" where
  "state_after x = fst x"

definition outcome_of :: "session \<times> result \<Rightarrow> outcome" where
  "outcome_of x = fst (snd x)"

definition requests_of :: "session \<times> result \<Rightarrow> request list" where
  "requests_of x = snd (snd x)"

fun run :: "session \<Rightarrow> (call \<times> transport) list \<Rightarrow> session \<times> request list" where
  "run s [] = (s, [])"
| "run s ((c, tr) # cs) =
     (let x = perform s c tr;
          (s', reqs) = run (state_after x) cs
      in (s', requests_of x @ reqs))"

fun request_config :: "request \<Rightarrow> config" where
  "request_config (Get url cfg) = cfg"
| "request_config (Post url body cfg) = cfg"
| "request_config (Patch url body cfg) = cfg"

subsection \<open>Calls that fail before the gate\<close>

text \<open>
  Every gated method builds its URL and parameters first and calls
  \<open>authorizedApiRequest\<close> last. With arguments of the documented types (strings
  for the identifiers, dates for the times) the one step of the building that can raise is
  \<open>toISOString\<close> on an invalid date, in \<open>getNotifications\<close>.
\<close>

fun marshalling_throws :: "call \<Rightarrow> bool" where
  "marshalling_throws (GetNotifications userId (Some InvalidDate)) = True"
| "marshalling_throws c = False"

text \<open>
  Whether a call leaves a token behind: an \<open>authorize\<close> whose fulfilled response body
  reads \<open>undefined\<close> at \<open>token\<close> does not.
\<close>

fun keeps_token :: "call \<Rightarrow> transport \<Rightarrow> bool" where
  "keeps_token (Authorize u p n r v) tr =
     (case tr (authorize_request u p n r v) of
        Failed e \<Rightarrow> True
      | Fulfilled d \<Rightarrow> get_prop d ''token'' \<noteq> Some Undefined)"
| "keeps_token c tr = True"

subsection \<open>The shape of an ISO 8601 timestamp\<close>

text \<open>
  A pattern is matched character by character: \<open>d\<close> in the pattern stands for a decimal
  digit, any other character for itself. An ISO 8601 timestamp with millisecond precision
  and the \<open>Z\<close> suffix has a four-digit year, or a sign and a six-digit year.
\<close>

definition is_digit :: "char \<Rightarrow> bool" where
  "is_digit c = (c \<in> set ''0123456789'')"

fun matches :: "string \<Rightarrow> string \<Rightarrow> bool" where
  "matches [] [] = True"
| "matches (p # ps) (c # cs) = ((if p = CHR ''d'' then is_digit c else p = c) \<and> matches ps cs)"
| "matches ps cs = False"

definition iso8601_ms :: "string \<Rightarrow> bool" where
  "iso8601_ms s =
     (matches ''dddd-dd-ddTdd:dd:dd.dddZ'' s \<or>
      matches ''+dddddd-dd-ddTdd:dd:dd.dddZ'' s \<or>
      matches ''-dddddd-dd-ddTdd:dd:dd.dddZ'' s)"

section \<open>Dates on the wire\<close>

lemma Math_round_div_1000: "Math_round (real_of_int ms / 1000) = (ms + 500) div 1000"
proof -
  have "real_of_int ms / 1000 + 1 / 2 = real_of_int (ms + 500) / real_of_int 1000"
    by (simp add: field_simps)
  then show ?thesis
    unfolding Math_round_def by (simp only: floor_divide_of_int_eq)
qed

lemma floor_ms: "\<lfloor>real_of_int ms / 1000\<rfloor> = ms div 1000"
proof -
  have "real_of_int ms / 1000 = real_of_int ms / real_of_int 1000" by simp
  then show ?thesis by (simp only: floor_divide_of_int_eq)
qed

lemma round_div_split:
  "(ms + 500) div 1000 = ms div 1000 + (if ms mod 1000 < 500 then 0 else 1)" for ms :: int
proof -
  define q where "q = ms div 1000"
  define r where "r = ms mod 1000"
  have ms: "ms = 1000 * q + r"
    unfolding q_def r_def by (rule mult_div_mod_eq [symmetric])
  have r0: "0 \<le> r" and r1: "r < 1000"
    unfolding r_def by simp_all
  show ?thesis
  proof (cases "r < 500")
    case True
    have "(ms + 500) div 1000 = q"
    proof (rule int_div_pos_eq)
      show "ms + 500 = 1000 * q + (r + 500)" using ms by linarith
      show "0 \<le> r + 500" using r0 by linarith
      show "r + 500 < 1000" using True by linarith
    qed
    with True show ?thesis unfolding q_def r_def by simp
  next
    case False
    have "(ms + 500) div 1000 = q + 1"
    proof (rule int_div_pos_eq)
      show "ms + 500 = 1000 * (q + 1) + (r - 500)" using ms by (simp add: algebra_simps)
      show "0 \<le> r - 500" using False by linarith
      show "r - 500 < 1000" using r1 by linarith
    qed
    with False show ?thesis unfolding q_def r_def by simp
  qed
qed

lemma dateToTimestamp_Date: "dateToTimestamp (Date ms) = Num ((ms + 500) div 1000)"
  by (simp add: dateToTimestamp_def Math_round_div_1000)

lemma gate_open:
  "token \<noteq> Undefined \<Longrightarrow> authorizedApiRequest token f = f ()"
  by (simp add: authorizedApiRequest_def)

lemma gate_closed:
  "authorizedApiRequest Undefined f = (Rejects (Str unauthorized_message), [])"
  by (simp add: authorizedApiRequest_def)

lemma requests_axios_then: "snd (axios_then tr req k) = [req]"
  by (simp add: axios_then_def split: response.split)

text \<open>
  C2, as stated: the conversion of a date to Unix seconds is the floor of its
  milliseconds divided by 1000. It fails half a second after a full second: 1500 ms is
  converted to 2, and the floor is 1.
\<close>

theorem dateToTimestamp_floor_counterexample:
  "dateToTimestamp (Date 1500) \<noteq> Num \<lfloor>real_of_int 1500 / 1000\<rfloor>"
  by (simp add: dateToTimestamp_Date)

text \<open>
  C2, amended. For every valid date with time value \<open>ms\<close>, the conversion is \<open>ms / 1000\<close>
  rounded to the nearest second, a tie going up: the floor of \<open>(ms + 500) / 1000\<close>. It
  is the floor of \<open>ms / 1000\<close> exactly when the millisecond part is below 500. This is
  the value stored under \<open>data_time_from\<close> and \<open>data_time_to\<close> by \<open>getStreams\<close> and under
  \<open>time_from\<close> and \<open>time_to\<close> by \<open>getStreamData\<close>; with a token set, \<open>getStreamData\<close> with
  \<open>timeFrom\<close> = 2015-10-12T05:10:00Z issues one GET whose parameters are
  \<open>{time_from: 1444626600}\<close>.
\<close>

theorem dateToTimestamp_rounds_to_nearest:
  "dateToTimestamp (Date ms) = Num ((ms + 500) div 1000) \<and>
   (dateToTimestamp (Date ms) = Num \<lfloor>real_of_int ms / 1000\<rfloor>) = (ms mod 1000 < 500) \<and>
   map_of (getStreams_params types channels (Some d) dataTimeTo) ''data_time_from''
     = Some (dateToTimestamp d) \<and>
   map_of (getStreams_params types channels dataTimeFrom (Some d)) ''data_time_to''
     = Some (dateToTimestamp d) \<and>
   map_of (getStreamData_params (Some d) timeTo limit) ''time_from''
     = Some (dateToTimestamp d) \<and>
   map_of (getStreamData_params timeFrom (Some d) limit) ''time_to''
     = Some (dateToTimestamp d) \<and>
   (s_token s \<noteq> Undefined \<longrightarrow>
      snd (getStreamData s feedId streamId (Some (Date 1444626600000)) None Undefined tr) =
        [Get (url_streamData feedId streamId)
           \<lparr>c_headers = Some (s_authorizedRequestHeaders s),
            c_params = Some [(''time_from'', Num 1444626600)],
            c_paramsSerializer = None, c_auth = None\<rparr>])"
proof (intro conjI impI)
  show "dateToTimestamp (Date ms) = Num ((ms + 500) div 1000)"
    by (rule dateToTimestamp_Date)
  show "(dateToTimestamp (Date ms) = Num \<lfloor>real_of_int ms / 1000\<rfloor>) = (ms mod 1000 < 500)"
    by (simp add: dateToTimestamp_Date floor_ms round_div_split)
  show "map_of (getStreams_params types channels (Some d) dataTimeTo) ''data_time_from''
          = Some (dateToTimestamp d)"
    by (simp add: getStreams_params_def Let_def split: option.split)
  show "map_of (getStreams_params types channels dataTimeFrom (Some d)) ''data_time_to''
          = Some (dateToTimestamp d)"
    by (simp add: getStreams_params_def Let_def split: option.split)
  show "map_of (getStreamData_params (Some d) timeTo limit) ''time_from''
          = Some (dateToTimestamp d)"
    by (simp add: getStreamData_params_def Let_def split: option.split)
  show "map_of (getStreamData_params timeFrom (Some d) limit) ''time_to''
          = Some (dateToTimestamp d)"
    by (simp add: getStreamData_params_def Let_def split: option.split)
next
  assume "s_token s \<noteq> Undefined"
  then show "snd (getStreamData s feedId streamId (Some (Date 1444626600000)) None Undefined tr) =
        [Get (url_streamData feedId streamId)
           \<lparr>c_headers = Some (s_authorizedRequestHeaders s),
            c_params = Some [(''time_from'', Num 1444626600)],
            c_paramsSerializer = None, c_auth = None\<rparr>]"
    by (simp add: getStreamData_def gate_open requests_axios_then getStreamData_params_def
        dateToTimestamp_Date Let_def)
qed

theorem dateToTimestamp_rounds_to_nearest_witness:
  "dateToTimestamp (Date 1444626600000) = Num 1444626600 \<and>
   snd (getStreamData
          \<lparr>s_token = Str ''my-token'',
           s_authorizedRequestHeaders =
             [(''Content-Type'', ''application/json''), (''Authorization'', ''Bearer my-token'')],
           s_axios = 0\<rparr>
          ''1'' ''2'' (Some (Date 1444626600000)) None Undefined
          (\<lambda>r. Fulfilled (Arr []))) =
     [Get ''/feeds/1/streams/2/data''
        \<lparr>c_headers = Some [(''Content-Type'', ''application/json''),
                           (''Authorization'', ''Bearer my-token'')],
         c_params = Some [(''time_from'', Num 1444626600)],
         c_paramsSerializer = None, c_auth = None\<rparr>]"
  using dateToTimestamp_rounds_to_nearest
    [of 1444626600000 Undefined Undefined "Date 0" None None None Undefined None
        "\<lparr>s_token = Str ''my-token'',
          s_authorizedRequestHeaders =
            [(''Content-Type'', ''application/json''), (''Authorization'', ''Bearer my-token'')],
          s_axios = 0\<rparr>"
        "''1''" "''2''" "\<lambda>r. Fulfilled (Arr [])"]
  by (simp add: url_streamData_def)

section \<open>The authorization gate\<close>

lemmas gated_defs =
  getUser_def getFeeds_def getFeed_def getStreams_def getStream_def getStreamData_def
  getRelatedStreams_def getNotifications_def getNotification_def updateNotifications_def
  updateNotification_def getNotificationCount_def

lemma unauthorized_message_literal:
  "unauthorized_message =
     ''Cannot call this method without setting the authorization token (in the constructor or using the authorize method).''"
  by (simp add: unauthorized_message_def)

lemma perform_unauthorized:
  assumes "s_token s = Undefined" and "\<not> is_authorize c"
  shows "snd (perform s c tr) =
           (if marshalling_throws c then (ThrowsRangeError, [])
            else (Rejects (Str unauthorized_message), []))"
  using assms
  by (cases c rule: marshalling_throws.cases)
     (simp_all add: gated_defs gate_closed getNotifications_params_def toISOString_def
        split: option.split)

lemma perform_gated_state: "\<not> is_authorize c \<Longrightarrow> fst (perform s c tr) = s"
  by (cases c) simp_all

lemma constructor_Some:
  assumes "constructor h t a u = Some (s, h')"
  shows "s_token s = t" and "buildAuthorizedRequestHeaders t = Some (s_authorizedRequestHeaders s)"
  using assms
  by (auto simp add: constructor_def Let_def split_beta split: option.splits)

lemma constructor_new:
  "constructor [] Undefined None Undefined =
     Some (\<lparr>s_token = Undefined,
            s_authorizedRequestHeaders =
              [(''Content-Type'', ''application/json''), (''Authorization'', ''Bearer undefined'')],
            s_axios = 0\<rparr>,
           [\<lparr>baseURL = Str ''https://api.energomonitor.com/v1''\<rparr>])"
  by (simp add: constructor_def buildAuthorizedRequestHeaders_def axios_create_def
      default_apiURL_def)

text \<open>
  C1, as stated: every operation other than \<open>authorize\<close>, invoked on a session without
  a token, yields a rejection with the fixed message. It fails for \<open>getNotifications\<close>
  with an invalid date on the session \<open>new Energomonitor()\<close>: \<open>toISOString\<close> raises
  while the parameters are built, so the call throws and no rejection is returned.
\<close>

theorem unauthorized_invalid_date_counterexample:
  "constructor [] Undefined None Undefined =
     Some (\<lparr>s_token = Undefined,
            s_authorizedRequestHeaders =
              [(''Content-Type'', ''application/json''), (''Authorization'', ''Bearer undefined'')],
            s_axios = 0\<rparr>,
           [\<lparr>baseURL = Str ''https://api.energomonitor.com/v1''\<rparr>]) \<and>
   outcome_of (perform
                 \<lparr>s_token = Undefined,
                  s_authorizedRequestHeaders =
                    [(''Content-Type'', ''application/json''),
                     (''Authorization'', ''Bearer undefined'')],
                  s_axios = 0\<rparr>
                 (GetNotifications ''1'' (Some InvalidDate)) (\<lambda>r. Fulfilled Null))
     \<noteq> Rejects (Str ''Cannot call this method without setting the authorization token (in the constructor or using the authorize method).'')"
  by (simp add: constructor_new outcome_of_def getNotifications_def
      getNotifications_params_def toISOString_def)

text \<open>
  C1, amended. For every operation other than \<open>authorize\<close>, invoked on a session whose
  token is \<open>undefined\<close>, no request is handed to the transport; and unless building the
  arguments raises first (\<open>getNotifications\<close> given an invalid date, which throws a
  RangeError), the result is a rejection whose value is exactly the string
  "Cannot call this method without setting the authorization token (in the constructor
  or using the authorize method).".
\<close>

theorem unauthorized_calls_rejected:
  assumes "s_token s = Undefined" and "\<not> is_authorize c"
  shows "requests_of (perform s c tr) = [] \<and>
         outcome_of (perform s c tr) =
           (if marshalling_throws c then ThrowsRangeError
            else Rejects (Str ''Cannot call this method without setting the authorization token (in the constructor or using the authorize method).''))"
  using perform_unauthorized [OF assms, of tr]
  by (simp add: requests_of_def outcome_of_def unauthorized_message_literal split: if_splits)

theorem unauthorized_calls_rejected_witness:
  "requests_of (perform
                  \<lparr>s_token = Undefined,
                   s_authorizedRequestHeaders =
                     [(''Content-Type'', ''application/json''),
                      (''Authorization'', ''Bearer undefined'')],
                   s_axios = 0\<rparr>
                  (GetStreams ''1'' (Arr [Str ''raw'']) Undefined (Some InvalidDate) None)
                  (\<lambda>r. Fulfilled Null)) = [] \<and>
   outcome_of (perform
                  \<lparr>s_token = Undefined,
                   s_authorizedRequestHeaders =
                     [(''Content-Type'', ''application/json''),
                      (''Authorization'', ''Bearer undefined'')],
                   s_axios = 0\<rparr>
                  (GetStreams ''1'' (Arr [Str ''raw'']) Undefined (Some InvalidDate) None)
                  (\<lambda>r. Fulfilled Null)) =
     Rejects (Str ''Cannot call this method without setting the authorization token (in the constructor or using the authorize method).'')"
proof -
  have t: "s_token
             \<lparr>s_token = Undefined,
              s_authorizedRequestHeaders =
                [(''Content-Type'', ''application/json''),
                 (''Authorization'', ''Bearer undefined'')],
              s_axios = 0\<rparr> = Undefined"
    by simp
  have a: "\<not> is_authorize (GetStreams ''1'' (Arr [Str ''raw'']) Undefined (Some InvalidDate) None)"
    by simp
  show ?thesis
    using unauthorized_calls_rejected [OF t a, of "\<lambda>r. Fulfilled Null"] by simp
qed

lemma perform_authorized_requests:
  assumes "s_token s \<noteq> Undefined" and "\<not> is_authorize c" and "\<not> marshalling_throws c"
  shows "map (\<lambda>r. c_headers (request_config r)) (requests_of (perform s c tr)) =
           [Some (s_authorizedRequestHeaders s)]"
  using assms
  by (cases c rule: marshalling_throws.cases)
     (simp_all add: gated_defs gate_open requests_of_def requests_axios_then headers_config_def
        getNotifications_params_def toISOString_def Let_def split: option.split)

lemma perform_marshalling_throws:
  assumes "marshalling_throws c"
  shows "snd (perform s c tr) = (ThrowsRangeError, [])"
proof -
  from assms obtain u where "c = GetNotifications u (Some InvalidDate)"
    by (cases c rule: marshalling_throws.cases) simp_all
  then show ?thesis
    by (simp add: getNotifications_def getNotifications_params_def toISOString_def)
qed


lemma constructor_null:
  "constructor [] Null None Undefined =
     Some (\<lparr>s_token = Null,
            s_authorizedRequestHeaders =
              [(''Content-Type'', ''application/json''), (''Authorization'', ''Bearer null'')],
            s_axios = 0\<rparr>,
           [\<lparr>baseURL = Str ''https://api.energomonitor.com/v1''\<rparr>])"
  by (simp add: constructor_def buildAuthorizedRequestHeaders_def axios_create_def
      default_apiURL_def)

text \<open>
  C10, as stated: with any token other than \<open>undefined\<close>, every operation goes on to
  issue its transport call. It fails on the session constructed with the token \<open>null\<close>
  for \<open>getNotifications\<close> with an invalid date: the call throws while the parameters
  are built and nothing reaches the transport.
\<close>

theorem null_token_invalid_date_counterexample:
  "constructor [] Null None Undefined =
     Some (\<lparr>s_token = Null,
            s_authorizedRequestHeaders =
              [(''Content-Type'', ''application/json''), (''Authorization'', ''Bearer null'')],
            s_axios = 0\<rparr>,
           [\<lparr>baseURL = Str ''https://api.energomonitor.com/v1''\<rparr>]) \<and>
   requests_of (perform
                  \<lparr>s_token = Null,
                   s_authorizedRequestHeaders =
                     [(''Content-Type'', ''application/json''),
                      (''Authorization'', ''Bearer null'')],
                   s_axios = 0\<rparr>
                  (GetNotifications ''1'' (Some InvalidDate)) (\<lambda>r. Fulfilled Null)) = []"
  by (simp add: constructor_null requests_of_def getNotifications_def
      getNotifications_params_def toISOString_def)

text \<open>
  C10, amended. Let a session be constructed with token \<open>t\<close>, and take a gated
  operation whose arguments are built without raising (with arguments of the documented
  types, every call but \<open>getNotifications\<close> given an invalid date). It issues no
  request if and only if \<open>t\<close> is \<open>undefined\<close>, and is then rejected with the fixed
  message. With any other token, \<open>null\<close> and the empty string included, it issues one
  request, whose headers are \<open>Content-Type: application/json\<close> and
  \<open>Authorization: Bearer\<close> followed by the string JavaScript converts \<open>t\<close> to:
  \<open>Bearer null\<close>, \<open>Bearer\<close> and a space for the empty string, \<open>Bearer 1e+21\<close> for
  the number \<open>10^21\<close>. A token without a string conversion makes the constructor raise,
  so it constructs no session.
\<close>

theorem gate_rejects_only_undefined:
  assumes "constructor h t a u = Some (s, h')"
    and "\<not> is_authorize c" and "\<not> marshalling_throws c"
  shows "(requests_of (perform s c tr) = []) = (t = Undefined) \<and>
         (if t = Undefined
          then outcome_of (perform s c tr) =
                 Rejects (Str ''Cannot call this method without setting the authorization token (in the constructor or using the authorize method).'')
          else map (\<lambda>q. c_headers (request_config q)) (requests_of (perform s c tr)) =
                 [Some (s_authorizedRequestHeaders s)]) \<and>
         map_option
           (\<lambda>str. [(''Content-Type'', ''application/json''), (''Authorization'', ''Bearer '' @ str)])
           (js_toString t) = Some (s_authorizedRequestHeaders s)"
proof (cases "t = Undefined")
  case True
  with constructor_Some(1) [OF assms(1)] have "s_token s = Undefined" by simp
  from perform_unauthorized [OF this assms(2), of tr] assms(3) True
    constructor_Some(2) [OF assms(1)]
  show ?thesis
    by (simp add: requests_of_def outcome_of_def unauthorized_message_literal
        buildAuthorizedRequestHeaders_def)
next
  case False
  with constructor_Some(1) [OF assms(1)] have "s_token s \<noteq> Undefined" by simp
  from perform_authorized_requests [OF this assms(2,3), of tr] False
    constructor_Some(2) [OF assms(1)]
  show ?thesis
    by (auto simp add: buildAuthorizedRequestHeaders_def)
qed

lemmas number_eval =
  js_number_string_def magnitude_string_def format_digits_def exponent_form_def strip_zeros_def
  shortest_def shortest_aux.simps candidate_def closest_def denotes_def to_double_def
  round_to_def round_half_even_def bit_length.simps decimal.simps string_of_nat_def
  digit_char_def

lemma constructor_empty_string:
  "constructor [] (Str []) None Undefined =
     Some (\<lparr>s_token = Str [],
            s_authorizedRequestHeaders =
              [(''Content-Type'', ''application/json''), (''Authorization'', ''Bearer '')],
            s_axios = 0\<rparr>,
           [\<lparr>baseURL = Str ''https://api.energomonitor.com/v1''\<rparr>])"
  by (simp add: constructor_def buildAuthorizedRequestHeaders_def axios_create_def
      default_apiURL_def)

lemma js_number_string_1e21: "js_number_string 1000000000000000000000 = ''1e+21''"
  by (simp add: number_eval)

lemma constructor_1e21:
  "constructor [] (Num 1000000000000000000000) None Undefined =
     Some (\<lparr>s_token = Num 1000000000000000000000,
            s_authorizedRequestHeaders =
              [(''Content-Type'', ''application/json''), (''Authorization'', ''Bearer 1e+21'')],
            s_axios = 0\<rparr>,
           [\<lparr>baseURL = Str ''https://api.energomonitor.com/v1''\<rparr>])"
  by (simp add: constructor_def buildAuthorizedRequestHeaders_def axios_create_def
      default_apiURL_def js_number_string_1e21)

theorem gate_rejects_only_undefined_witness:
  "map (\<lambda>q. c_headers (request_config q))
     (requests_of (perform
        \<lparr>s_token = Null,
         s_authorizedRequestHeaders =
           [(''Content-Type'', ''application/json''), (''Authorization'', ''Bearer null'')],
         s_axios = 0\<rparr>
        (GetFeed ''1'') (\<lambda>r. Fulfilled Null))) =
     [Some [(''Content-Type'', ''application/json''), (''Authorization'', ''Bearer null'')]] \<and>
   map (\<lambda>q. c_headers (request_config q))
     (requests_of (perform
        \<lparr>s_token = Str [],
         s_authorizedRequestHeaders =
           [(''Content-Type'', ''application/json''), (''Authorization'', ''Bearer '')],
         s_axios = 0\<rparr>
        (UpdateNotifications ''1'' Undefined) (\<lambda>r. Failed Null))) =
     [Some [(''Content-Type'', ''application/json''), (''Authorization'', ''Bearer '')]] \<and>
   map (\<lambda>q. c_headers (request_config q))
     (requests_of (perform
        \<lparr>s_token = Num 1000000000000000000000,
         s_authorizedRequestHeaders =
           [(''Content-Type'', ''application/json''), (''Authorization'', ''Bearer 1e+21'')],
         s_axios = 0\<rparr>
        (GetFeed ''1'') (\<lambda>r. Fulfilled Null))) =
     [Some [(''Content-Type'', ''application/json''), (''Authorization'', ''Bearer 1e+21'')]] \<and>
   requests_of (perform
        \<lparr>s_token = Undefined,
         s_authorizedRequestHeaders =
           [(''Content-Type'', ''application/json''), (''Authorization'', ''Bearer undefined'')],
         s_axios = 0\<rparr>
        (GetFeed ''1'') (\<lambda>r. Fulfilled Null)) = []"
proof -
  have a: "\<not> is_authorize (GetFeed ''1'')" "\<not> marshalling_throws (GetFeed ''1'')"
    by simp_all
  have b: "\<not> is_authorize (UpdateNotifications ''1'' Undefined)"
    "\<not> marshalling_throws (UpdateNotifications ''1'' Undefined)"
    by simp_all
  show ?thesis
    using gate_rejects_only_undefined [OF constructor_null a, of "\<lambda>r. Fulfilled Null"]
      gate_rejects_only_undefined [OF constructor_empty_string b, of "\<lambda>r. Failed Null"]
      gate_rejects_only_undefined [OF constructor_1e21 a, of "\<lambda>r. Fulfilled Null"]
      gate_rejects_only_undefined [OF constructor_new a, of "\<lambda>r. Fulfilled Null"]
    by simp
qed

section \<open>The credential\<close>

lemma authorize_failed:
  "tr (authorize_request u p n r v) = Failed e \<Longrightarrow>
   authorize s u p n r v tr = (s, Rejects e, [authorize_request u p n r v])"
  by (simp add: authorize_def)

lemma authorize_fulfilled:
  "tr (authorize_request u p n r v) = Fulfilled d \<Longrightarrow>
   authorize s u p n r v tr =
     (case get_prop d ''token'' of
        None \<Rightarrow> (s, RejectsTypeError, [authorize_request u p n r v])
      | Some token \<Rightarrow>
          (case buildAuthorizedRequestHeaders token of
             None \<Rightarrow> (s\<lparr>s_token := token\<rparr>, RejectsTypeError, [authorize_request u p n r v])
           | Some hs \<Rightarrow>
               (s\<lparr>s_token := token, s_authorizedRequestHeaders := hs\<rparr>,
                Resolves d, [authorize_request u p n r v])))"
  by (simp add: authorize_def Let_def)

lemma authorize_changes:
  assumes "fst (authorize s u p n r v tr) \<noteq> s"
  shows "\<exists>d. tr (authorize_request u p n r v) = Fulfilled d \<and>
             fst (snd (authorize s u p n r v tr)) =
               (case buildAuthorizedRequestHeaders (s_token (fst (authorize s u p n r v tr))) of
                  None \<Rightarrow> RejectsTypeError
                | Some hs \<Rightarrow> Resolves d)"
proof (cases "tr (authorize_request u p n r v)")
  case (Fulfilled d)
  show ?thesis
  proof (cases "get_prop d ''token''")
    case None
    with Fulfilled assms show ?thesis by (simp add: authorize_fulfilled)
  next
    case (Some token)
    with Fulfilled show ?thesis
      by (cases "buildAuthorizedRequestHeaders token") (simp_all add: authorize_fulfilled)
  qed
next
  case (Failed e)
  with assms show ?thesis by (simp add: authorize_failed)
qed

text \<open>
  C4. The token and the headers derived from it are assigned by \<open>authorize\<close> only,
  and only when its request is fulfilled: every other operation returns the session as it
  was; an \<open>authorize\<close> whose transport call fails returns the session as it was and
  rejects with the transport's error; and whenever a call changes the session, the call
  is an \<open>authorize\<close> whose request was fulfilled. Its promise then resolves to the
  response body, unless the token just stored has no string conversion: building the
  headers raises, the headers stay as they were and the promise rejects with the
  TypeError.
\<close>

theorem credential_changes_only_in_authorize:
  "(\<not> is_authorize c \<longrightarrow> state_after (perform s c tr) = s) \<and>
   (tr (authorize_request u p n r v) = Failed e \<longrightarrow>
      state_after (perform s (Authorize u p n r v) tr) = s \<and>
      outcome_of (perform s (Authorize u p n r v) tr) = Rejects e) \<and>
   (state_after (perform s c tr) \<noteq> s \<longrightarrow>
      (\<exists>u p n r v d. c = Authorize u p n r v \<and>
         tr (authorize_request u p n r v) = Fulfilled d \<and>
         outcome_of (perform s c tr) =
           (case buildAuthorizedRequestHeaders (s_token (state_after (perform s c tr))) of
              None \<Rightarrow> RejectsTypeError
            | Some hs \<Rightarrow> Resolves d)))"
proof (intro conjI impI)
  assume "\<not> is_authorize c"
  then show "state_after (perform s c tr) = s"
    by (simp add: state_after_def perform_gated_state)
next
  assume f: "tr (authorize_request u p n r v) = Failed e"
  show "state_after (perform s (Authorize u p n r v) tr) = s"
    using f by (simp add: state_after_def authorize_failed)
  show "outcome_of (perform s (Authorize u p n r v) tr) = Rejects e"
    using f by (simp add: outcome_of_def authorize_failed)
next
  assume ch: "state_after (perform s c tr) \<noteq> s"
  then have "is_authorize c"
    using perform_gated_state [of c s tr] by (auto simp add: state_after_def)
  then obtain u p n r v where c: "c = Authorize u p n r v"
    by (cases c) simp_all
  with ch have "fst (authorize s u p n r v tr) \<noteq> s"
    by (simp add: state_after_def)
  from authorize_changes [OF this] c
  show "\<exists>u p n r v d. c = Authorize u p n r v \<and>
         tr (authorize_request u p n r v) = Fulfilled d \<and>
         outcome_of (perform s c tr) =
           (case buildAuthorizedRequestHeaders (s_token (state_after (perform s c tr))) of
              None \<Rightarrow> RejectsTypeError
            | Some hs \<Rightarrow> Resolves d)"
    by (auto simp add: outcome_of_def state_after_def)
qed

theorem credential_changes_only_in_authorize_witness:
  "state_after (perform \<lparr>s_token = Str ''my-token'',
      s_authorizedRequestHeaders =
        [(''Content-Type'', ''application/json''), (''Authorization'', ''Bearer my-token'')],
      s_axios = 0\<rparr>
                  (GetUser ''1'') (\<lambda>r. Fulfilled Null)) =
     \<lparr>s_token = Str ''my-token'',
      s_authorizedRequestHeaders =
        [(''Content-Type'', ''application/json''), (''Authorization'', ''Bearer my-token'')],
      s_axios = 0\<rparr> \<and>
   state_after (perform \<lparr>s_token = Str ''my-token'',
      s_authorizedRequestHeaders =
        [(''Content-Type'', ''application/json''), (''Authorization'', ''Bearer my-token'')],
      s_axios = 0\<rparr>
                  (Authorize (Str ''test_user'') (Str ''test_pw'') Undefined Undefined Undefined)
                  (\<lambda>r. Failed (Str ''401''))) =
     \<lparr>s_token = Str ''my-token'',
      s_authorizedRequestHeaders =
        [(''Content-Type'', ''application/json''), (''Authorization'', ''Bearer my-token'')],
      s_axios = 0\<rparr> \<and>
   outcome_of (perform \<lparr>s_token = Str ''my-token'',
      s_authorizedRequestHeaders =
        [(''Content-Type'', ''application/json''), (''Authorization'', ''Bearer my-token'')],
      s_axios = 0\<rparr>
                  (Authorize (Str ''test_user'') (Str ''test_pw'') Undefined Undefined Undefined)
                  (\<lambda>r. Failed (Str ''401''))) = Rejects (Str ''401'') \<and>
   state_after (perform \<lparr>s_token = Str ''my-token'',
      s_authorizedRequestHeaders =
        [(''Content-Type'', ''application/json''), (''Authorization'', ''Bearer my-token'')],
      s_axios = 0\<rparr>
                  (Authorize (Str ''test_user'') (Str ''test_pw'') Undefined Undefined Undefined)
                  (\<lambda>r. Fulfilled (Obj [(''token'', Str ''test-123456789'')]))) =
     \<lparr>s_token = Str ''test-123456789'',
      s_authorizedRequestHeaders =
        [(''Content-Type'', ''application/json''),
         (''Authorization'', ''Bearer test-123456789'')],
      s_axios = 0\<rparr> \<and>
   outcome_of (perform \<lparr>s_token = Str ''my-token'',
      s_authorizedRequestHeaders =
        [(''Content-Type'', ''application/json''), (''Authorization'', ''Bearer my-token'')],
      s_axios = 0\<rparr>
                  (Authorize (Str ''test_user'') (Str ''test_pw'') Undefined Undefined Undefined)
                  (\<lambda>r. Fulfilled (Obj [(''token'', Str ''test-123456789'')]))) =
     Resolves (Obj [(''token'', Str ''test-123456789'')]) \<and>
   state_after (perform \<lparr>s_token = Str ''my-token'',
      s_authorizedRequestHeaders =
        [(''Content-Type'', ''application/json''), (''Authorization'', ''Bearer my-token'')],
      s_axios = 0\<rparr>
                  (Authorize (Str ''test_user'') (Str ''test_pw'') Undefined Undefined Undefined)
                  (\<lambda>r. Fulfilled (Obj [(''token'', Obj [(''toString'', Str ''x'')])]))) =
     \<lparr>s_token = Obj [(''toString'', Str ''x'')],
      s_authorizedRequestHeaders =
        [(''Content-Type'', ''application/json''), (''Authorization'', ''Bearer my-token'')],
      s_axios = 0\<rparr> \<and>
   outcome_of (perform \<lparr>s_token = Str ''my-token'',
      s_authorizedRequestHeaders =
        [(''Content-Type'', ''application/json''), (''Authorization'', ''Bearer my-token'')],
      s_axios = 0\<rparr>
                  (Authorize (Str ''test_user'') (Str ''test_pw'') Undefined Undefined Undefined)
                  (\<lambda>r. Fulfilled (Obj [(''token'', Obj [(''toString'', Str ''x'')])]))) =
     RejectsTypeError"
  using credential_changes_only_in_authorize
      [of "GetUser ''1''" "\<lparr>s_token = Str ''my-token'',
      s_authorizedRequestHeaders =
        [(''Content-Type'', ''application/json''), (''Authorization'', ''Bearer my-token'')],
      s_axios = 0\<rparr>"
          "\<lambda>r. Fulfilled Null"]
    credential_changes_only_in_authorize
      [of "GetUser ''1''" "\<lparr>s_token = Str ''my-token'',
      s_authorizedRequestHeaders =
        [(''Content-Type'', ''application/json''), (''Authorization'', ''Bearer my-token'')],
      s_axios = 0\<rparr>"
          "\<lambda>r. Failed (Str ''401'')" "Str ''test_user''" "Str ''test_pw''" Undefined Undefined
          Undefined "Str ''401''"]
    credential_changes_only_in_authorize
      [of "Authorize (Str ''test_user'') (Str ''test_pw'') Undefined Undefined Undefined"
          "\<lparr>s_token = Str ''my-token'',
      s_authorizedRequestHeaders =
        [(''Content-Type'', ''application/json''), (''Authorization'', ''Bearer my-token'')],
      s_axios = 0\<rparr>"
          "\<lambda>r. Fulfilled (Obj [(''token'', Str ''test-123456789'')])"]
    credential_changes_only_in_authorize
      [of "Authorize (Str ''test_user'') (Str ''test_pw'') Undefined Undefined Undefined"
          "\<lparr>s_token = Str ''my-token'',
      s_authorizedRequestHeaders =
        [(''Content-Type'', ''application/json''), (''Authorization'', ''Bearer my-token'')],
      s_axios = 0\<rparr>"
          "\<lambda>r. Fulfilled (Obj [(''token'', Obj [(''toString'', Str ''x'')])])"]
  by (simp add: state_after_def outcome_of_def authorize_def Let_def
      buildAuthorizedRequestHeaders_def)

lemma perform_token_after:
  assumes "s_token s \<noteq> Undefined"
  shows "(s_token (state_after (perform s c tr)) = Undefined) = (\<not> keeps_token c tr)"
proof (cases "is_authorize c")
  case False
  then have "keeps_token c tr" by (cases c) simp_all
  with False assms show ?thesis by (simp add: state_after_def perform_gated_state)
next
  case True
  then obtain u p n r v where c: "c = Authorize u p n r v" by (cases c) simp_all
  show ?thesis
  proof (cases "tr (authorize_request u p n r v)")
    case (Failed e)
    with c assms show ?thesis by (simp add: state_after_def authorize_failed)
  next
    case (Fulfilled d)
    show ?thesis
    proof (cases "get_prop d ''token''")
      case None
      with Fulfilled c assms show ?thesis by (simp add: state_after_def authorize_fulfilled)
    next
      case (Some token)
      with Fulfilled c assms show ?thesis
        by (cases "buildAuthorizedRequestHeaders token")
           (auto simp add: state_after_def authorize_fulfilled)
    qed
  qed
qed

lemma run_keeps_token:
  "s_token s \<noteq> Undefined \<Longrightarrow> list_all (\<lambda>(c, tr). keeps_token c tr) cs \<Longrightarrow>
   s_token (fst (run s cs)) \<noteq> Undefined"
proof (induction cs arbitrary: s)
  case Nil
  then show ?case by simp
next
  case (Cons x cs)
  obtain c tr where x: "x = (c, tr)" by (cases x)
  from Cons.prems x have h: "keeps_token c tr" by simp
  with perform_token_after [OF Cons.prems(1), of c tr]
  have "s_token (state_after (perform s c tr)) \<noteq> Undefined" by simp
  from Cons.IH [OF this] Cons.prems(2) x show ?case
    by (simp add: split_beta Let_def)
qed

text \<open>
  C3, as stated: once a token is set, no operation returns the session to the state
  without one, whatever the response body of \<open>authorize\<close> carries or lacks. It fails
  on a session constructed with \<open>'my-token'\<close> when \<open>authorize\<close> is answered with the
  body \<open>{}\<close>: \<open>response.data.token\<close> is \<open>undefined\<close> and is stored.
\<close>

theorem authorize_without_token_counterexample:
  "constructor [] (Str ''my-token'') None Undefined =
     Some (\<lparr>s_token = Str ''my-token'',
      s_authorizedRequestHeaders =
        [(''Content-Type'', ''application/json''), (''Authorization'', ''Bearer my-token'')],
      s_axios = 0\<rparr>,
           [\<lparr>baseURL = Str ''https://api.energomonitor.com/v1''\<rparr>]) \<and>
   s_token \<lparr>s_token = Str ''my-token'',
      s_authorizedRequestHeaders =
        [(''Content-Type'', ''application/json''), (''Authorization'', ''Bearer my-token'')],
      s_axios = 0\<rparr> \<noteq> Undefined \<and>
   s_token (state_after
     (perform \<lparr>s_token = Str ''my-token'',
      s_authorizedRequestHeaders =
        [(''Content-Type'', ''application/json''), (''Authorization'', ''Bearer my-token'')],
      s_axios = 0\<rparr>
        (Authorize (Str ''test_user'') (Str ''test_pw'') Undefined Undefined Undefined)
        (\<lambda>r. Fulfilled (Obj [])))) = Undefined"
  by (simp add: constructor_def buildAuthorizedRequestHeaders_def axios_create_def
      default_apiURL_def state_after_def authorize_def)

text \<open>
  C3, amended. From a session with a token, a call leaves the session without one
  exactly when it is an \<open>authorize\<close> whose fulfilled response body reads \<open>undefined\<close>
  at \<open>token\<close>. Every other operation, a failed \<open>authorize\<close>, an \<open>authorize\<close>
  answered with no body (the TypeError rejects the promise before anything is stored) and
  an \<open>authorize\<close> whose body carries a token keep a token present, and so does every
  sequence of such calls.
\<close>

theorem authorized_state_persists:
  assumes "s_token s \<noteq> Undefined"
  shows "(s_token (state_after (perform s c tr)) = Undefined) = (\<not> keeps_token c tr) \<and>
         (list_all (\<lambda>(c, tr). keeps_token c tr) cs \<longrightarrow>
            s_token (fst (run s cs)) \<noteq> Undefined)"
  using perform_token_after [OF assms] run_keeps_token [OF assms] by simp

theorem authorized_state_persists_witness:
  "s_token (state_after
     (perform \<lparr>s_token = Str ''my-token'',
      s_authorizedRequestHeaders =
        [(''Content-Type'', ''application/json''), (''Authorization'', ''Bearer my-token'')],
      s_axios = 0\<rparr>
        (Authorize (Str ''test_user'') (Str ''test_pw'') Undefined Undefined Undefined)
        (\<lambda>r. Fulfilled (Obj [(''token'', Str ''test-123456789'')])))) \<noteq> Undefined \<and>
   s_token (fst (run \<lparr>s_token = Str ''my-token'',
      s_authorizedRequestHeaders =
        [(''Content-Type'', ''application/json''), (''Authorization'', ''Bearer my-token'')],
      s_axios = 0\<rparr>
      [(GetFeed ''1'', \<lambda>r. Failed Null),
       (Authorize (Str ''test_user'') (Str ''test_pw'') Undefined Undefined Undefined,
        \<lambda>r. Fulfilled (Obj [(''token'', Str ''test-123456789'')])),
       (Authorize (Str ''test_user'') (Str ''test_pw'') Undefined Undefined Undefined,
        \<lambda>r. Fulfilled Null),
       (Authorize (Str ''test_user'') (Str ''test_pw'') Undefined Undefined Undefined,
        \<lambda>r. Failed (Str ''401''))])) \<noteq> Undefined"
proof -
  have t: "s_token \<lparr>s_token = Str ''my-token'',
      s_authorizedRequestHeaders =
        [(''Content-Type'', ''application/json''), (''Authorization'', ''Bearer my-token'')],
      s_axios = 0\<rparr> \<noteq> Undefined"
    by simp
  show ?thesis
    using authorized_state_persists [OF t,
        of "Authorize (Str ''test_user'') (Str ''test_pw'') Undefined Undefined Undefined"
           "\<lambda>r. Fulfilled (Obj [(''token'', Str ''test-123456789'')])"
           "[(GetFeed ''1'', \<lambda>r. Failed Null),
             (Authorize (Str ''test_user'') (Str ''test_pw'') Undefined Undefined Undefined,
              \<lambda>r. Fulfilled (Obj [(''token'', Str ''test-123456789'')])),
             (Authorize (Str ''test_user'') (Str ''test_pw'') Undefined Undefined Undefined,
              \<lambda>r. Fulfilled Null),
             (Authorize (Str ''test_user'') (Str ''test_pw'') Undefined Undefined Undefined,
              \<lambda>r. Failed (Str ''401''))]"]
    by simp
qed





section \<open>Requests as built\<close>

lemma authorize_requests:
  "snd (snd (authorize s u p n r v tr)) = [authorize_request u p n r v]"
  by (cases "tr (authorize_request u p n r v)")
     (simp_all add: authorize_failed authorize_fulfilled split: option.split)

lemma authorize_data_lookup:
  "map_of (authorize_data note resources validMinutes) ''note'' =
     (if note = Undefined then None else Some note)"
  "map_of (authorize_data note resources validMinutes) ''resources'' =
     (if resources = Undefined then None else Some resources)"
  "map_of (authorize_data note resources validMinutes) ''valid_minutes'' =
     (if validMinutes = Undefined then None else Some validMinutes)"
  by (simp_all add: authorize_data_def Let_def)

lemma authorize_data_keys:
  "obj_keys (authorize_data note resources validMinutes) =
     (if note = Undefined then [] else [''note'']) @
     (if resources = Undefined then [] else [''resources'']) @
     (if validMinutes = Undefined then [] else [''valid_minutes''])"
  by (simp add: authorize_data_def obj_keys_def Let_def)

lemma getStreams_params_keys:
  "obj_keys (getStreams_params types channels dataTimeFrom dataTimeTo) =
     (if types = Undefined then [] else [''type'']) @
     (if channels = Undefined then [] else [''channel'']) @
     (if dataTimeFrom = None then [] else [''data_time_from'']) @
     (if dataTimeTo = None then [] else [''data_time_to''])"
  by (simp add: getStreams_params_def obj_keys_def Let_def split: option.split)

lemma getStreamData_params_keys:
  "obj_keys (getStreamData_params timeFrom timeTo limit) =
     (if limit = Undefined then [] else [''limit'']) @
     (if timeFrom = None then [] else [''time_from'']) @
     (if timeTo = None then [] else [''time_to''])"
  by (simp add: getStreamData_params_def obj_keys_def Let_def split: option.split)

text \<open>
  C5. Every \<open>authorize\<close> call hands the transport one request: a POST to
  \<open>/authorizations\<close> with the basic-auth pair of the given username and password, no
  headers of the session, and a body object that has the key \<open>note\<close>, \<open>resources\<close> or
  \<open>valid_minutes\<close> exactly when the corresponding argument is not \<open>undefined\<close>, with
  the argument as its value; with no optional argument the body is the empty object. In
  the same way the parameters of \<open>getStreams\<close>, \<open>getStreamData\<close> and
  \<open>getNotifications\<close> have a key exactly for the arguments given, and
  \<open>updateNotifications\<close> and \<open>updateNotification\<close> pass their \<open>data\<close> argument on
  as the body unchanged, \<open>undefined\<close> when it is omitted.
\<close>

theorem authorize_request_shape:
  "requests_of (perform s (Authorize username password note resources validMinutes) tr) =
     [Post ''/authorizations'' (Obj (authorize_data note resources validMinutes))
        \<lparr>c_headers = None, c_params = None, c_paramsSerializer = None,
         c_auth = Some (username, password)\<rparr>] \<and>
   obj_keys (authorize_data note resources validMinutes) =
     (if note = Undefined then [] else [''note'']) @
     (if resources = Undefined then [] else [''resources'']) @
     (if validMinutes = Undefined then [] else [''valid_minutes'']) \<and>
   map_of (authorize_data note resources validMinutes) ''note'' =
     (if note = Undefined then None else Some note) \<and>
   map_of (authorize_data note resources validMinutes) ''resources'' =
     (if resources = Undefined then None else Some resources) \<and>
   map_of (authorize_data note resources validMinutes) ''valid_minutes'' =
     (if validMinutes = Undefined then None else Some validMinutes) \<and>
   authorize_data Undefined Undefined Undefined = [] \<and>
   obj_keys (getStreams_params types channels dataTimeFrom dataTimeTo) =
     (if types = Undefined then [] else [''type'']) @
     (if channels = Undefined then [] else [''channel'']) @
     (if dataTimeFrom = None then [] else [''data_time_from'']) @
     (if dataTimeTo = None then [] else [''data_time_to'']) \<and>
   obj_keys (getStreamData_params timeFrom timeTo limit) =
     (if limit = Undefined then [] else [''limit'']) @
     (if timeFrom = None then [] else [''time_from'']) @
     (if timeTo = None then [] else [''time_to'']) \<and>
   getNotifications_params None = Some [] \<and>
   requests_of (perform s (UpdateNotifications userId data) tr) =
     (if s_token s = Undefined then []
      else [Patch (url_notifications userId) data (headers_config s)]) \<and>
   requests_of (perform s (UpdateNotification userId notificationId data) tr) =
     (if s_token s = Undefined then []
      else [Patch (url_notification userId notificationId) data (headers_config s)])"
proof (intro conjI)
  show "requests_of (perform s (Authorize username password note resources validMinutes) tr) =
     [Post ''/authorizations'' (Obj (authorize_data note resources validMinutes))
        \<lparr>c_headers = None, c_params = None, c_paramsSerializer = None,
         c_auth = Some (username, password)\<rparr>]"
    by (simp add: requests_of_def authorize_requests authorize_request_def url_auth_def)
  show "authorize_data Undefined Undefined Undefined = []"
    by (simp add: authorize_data_def)
  show "getNotifications_params None = Some []"
    by (simp add: getNotifications_params_def)
  show "requests_of (perform s (UpdateNotifications userId data) tr) =
     (if s_token s = Undefined then []
      else [Patch (url_notifications userId) data (headers_config s)])"
    by (simp add: requests_of_def updateNotifications_def gate_open gate_closed
        requests_axios_then)
  show "requests_of (perform s (UpdateNotification userId notificationId data) tr) =
     (if s_token s = Undefined then []
      else [Patch (url_notification userId notificationId) data (headers_config s)])"
    by (simp add: requests_of_def updateNotification_def gate_open gate_closed
        requests_axios_then)
qed (simp_all only: authorize_data_lookup authorize_data_keys getStreams_params_keys
    getStreamData_params_keys)

theorem authorize_request_shape_witness:
  "requests_of (perform \<lparr>s_token = Undefined,
         s_authorizedRequestHeaders =
           [(''Content-Type'', ''application/json''), (''Authorization'', ''Bearer undefined'')],
         s_axios = 0\<rparr>
                  (Authorize (Str ''test_user'') (Str ''test_pw'') Undefined Undefined Undefined)
                  (\<lambda>r. Fulfilled Null)) =
     [Post ''/authorizations'' (Obj [])
        \<lparr>c_headers = None, c_params = None, c_paramsSerializer = None,
         c_auth = Some (Str ''test_user'', Str ''test_pw'')\<rparr>] \<and>
   authorize_data (Str ''test_note'') Undefined (Num 15) =
     [(''note'', Str ''test_note''), (''valid_minutes'', Num 15)] \<and>
   obj_keys (getStreamData_params None None (Num 50)) = [''limit'']"
  using authorize_request_shape
      [of "\<lparr>s_token = Undefined,
         s_authorizedRequestHeaders =
           [(''Content-Type'', ''application/json''), (''Authorization'', ''Bearer undefined'')],
         s_axios = 0\<rparr>" "Str ''test_user''" "Str ''test_pw''"
          Undefined Undefined Undefined "\<lambda>r. Fulfilled Null" Undefined Undefined None None
          None None "Num 50" "[]" Undefined "[]"]
  by (simp add: authorize_data_def Let_def)

text \<open>
  C9. Constructing a session sets \<open>defaults.baseURL\<close> of its axios instance to the
  \<open>apiURL\<close> argument, or to \<open>https://api.energomonitor.com/v1\<close> when that is
  \<open>undefined\<close>. With no instance passed in, a new instance is created, on an empty
  store as on any other, and gets this base URL. With an instance passed in, the session
  uses that very instance, its earlier base URL is overwritten whatever it was, and no
  other instance is touched. There is no session only when the token has no string
  conversion and building the headers raises.
\<close>

theorem constructor_overwrites_baseURL:
  "constructor h token None apiURL =
     map_option
       (\<lambda>hs. (\<lparr>s_token = token, s_authorizedRequestHeaders = hs, s_axios = length h\<rparr>,
              h @ [\<lparr>baseURL =
                      (if apiURL = Undefined then Str ''https://api.energomonitor.com/v1''
                       else apiURL)\<rparr>]))
       (buildAuthorizedRequestHeaders token) \<and>
   (r < length h \<longrightarrow>
      constructor h token (Some r) apiURL =
        map_option
          (\<lambda>hs. (\<lparr>s_token = token, s_authorizedRequestHeaders = hs, s_axios = r\<rparr>,
                 h[r := (h ! r)\<lparr>baseURL :=
                           (if apiURL = Undefined then Str ''https://api.energomonitor.com/v1''
                            else apiURL)\<rparr>]))
          (buildAuthorizedRequestHeaders token)) \<and>
   (r < length h \<and> constructor h token (Some r) apiURL = Some (s, h') \<longrightarrow>
      getAxiosInstance s = r \<and> length h' = length h \<and>
      baseURL (h' ! r) =
        (if apiURL = Undefined then Str ''https://api.energomonitor.com/v1'' else apiURL) \<and>
      (r' \<noteq> r \<longrightarrow> h' ! r' = h ! r')) \<and>
   (constructor h token None apiURL = Some (s, h') \<longrightarrow>
      getAxiosInstance s = length h \<and> length h' = length h + 1 \<and>
      baseURL (h' ! length h) =
        (if apiURL = Undefined then Str ''https://api.energomonitor.com/v1'' else apiURL) \<and>
      (r' < length h \<longrightarrow> h' ! r' = h ! r')) \<and>
   (constructor h token a apiURL = None) = (js_toString token = None)"
proof (intro conjI impI)
  show none: "constructor h token None apiURL =
     map_option
       (\<lambda>hs. (\<lparr>s_token = token, s_authorizedRequestHeaders = hs, s_axios = length h\<rparr>,
              h @ [\<lparr>baseURL =
                      (if apiURL = Undefined then Str ''https://api.energomonitor.com/v1''
                       else apiURL)\<rparr>]))
       (buildAuthorizedRequestHeaders token)"
    by (simp add: constructor_def axios_create_def default_apiURL_def Let_def
        split: option.split)
  show "(constructor h token a apiURL = None) = (js_toString token = None)"
    by (simp add: constructor_def buildAuthorizedRequestHeaders_def Let_def split_beta
        split: option.split)
  {
    assume c: "constructor h token None apiURL = Some (s, h')"
    then have e: "s_axios s = length h \<and>
      h' = h @ [\<lparr>baseURL =
                   (if apiURL = Undefined then Str ''https://api.energomonitor.com/v1''
                    else apiURL)\<rparr>]"
      by (auto simp add: constructor_def axios_create_def default_apiURL_def Let_def
          split: option.splits)
    from e show "getAxiosInstance s = length h" by (simp add: getAxiosInstance_def)
    from e show "length h' = length h + 1" by simp
    from e show "baseURL (h' ! length h) =
        (if apiURL = Undefined then Str ''https://api.energomonitor.com/v1'' else apiURL)"
      by simp
    assume "r' < length h"
    with e show "h' ! r' = h ! r'" by (simp add: nth_append)
  }
next
  assume r: "r < length h"
  then show "constructor h token (Some r) apiURL =
        map_option
          (\<lambda>hs. (\<lparr>s_token = token, s_authorizedRequestHeaders = hs, s_axios = r\<rparr>,
                 h[r := (h ! r)\<lparr>baseURL :=
                           (if apiURL = Undefined then Str ''https://api.energomonitor.com/v1''
                            else apiURL)\<rparr>]))
          (buildAuthorizedRequestHeaders token)"
    by (simp add: constructor_def default_apiURL_def Let_def split: option.split)
next
  assume "r < length h \<and> constructor h token (Some r) apiURL = Some (s, h')"
  then have r: "r < length h" and c: "constructor h token (Some r) apiURL = Some (s, h')"
    by simp_all
  from c have e: "s_axios s = r \<and>
      h' = h[r := (h ! r)\<lparr>baseURL :=
                     (if apiURL = Undefined then Str ''https://api.energomonitor.com/v1''
                      else apiURL)\<rparr>]"
    by (auto simp add: constructor_def default_apiURL_def Let_def split: option.splits)
  from e show "getAxiosInstance s = r" by (simp add: getAxiosInstance_def)
  from e show "length h' = length h" by simp
  from e r show "baseURL (h' ! r) =
        (if apiURL = Undefined then Str ''https://api.energomonitor.com/v1'' else apiURL)"
    by simp
  assume "r' \<noteq> r"
  with e show "h' ! r' = h ! r'" by simp
qed

theorem constructor_overwrites_baseURL_witness:
  "constructor [] Undefined None Undefined =
     Some (\<lparr>s_token = Undefined,
            s_authorizedRequestHeaders =
              [(''Content-Type'', ''application/json''), (''Authorization'', ''Bearer undefined'')],
            s_axios = 0\<rparr>,
           [\<lparr>baseURL = Str ''https://api.energomonitor.com/v1''\<rparr>]) \<and>
   map_option snd (constructor [] Undefined None (Str ''my.api.url'')) =
     Some [\<lparr>baseURL = Str ''my.api.url''\<rparr>] \<and>
   map_option snd (constructor [\<lparr>baseURL = Str ''original.url''\<rparr>] Undefined (Some 0)
                     (Str ''my.api.url'')) =
     Some [\<lparr>baseURL = Str ''my.api.url''\<rparr>] \<and>
   map_option snd (constructor [\<lparr>baseURL = Str ''original.url''\<rparr>] Undefined (Some 0)
                     Undefined) =
     Some [\<lparr>baseURL = Str ''https://api.energomonitor.com/v1''\<rparr>] \<and>
   map_option snd
     (constructor [\<lparr>baseURL = Str ''original.url''\<rparr>, \<lparr>baseURL = Str ''other.url''\<rparr>]
        (Str ''my-token'') (Some 0) (Str ''my.api.url'')) =
     Some [\<lparr>baseURL = Str ''my.api.url''\<rparr>, \<lparr>baseURL = Str ''other.url''\<rparr>] \<and>
   constructor [\<lparr>baseURL = Str ''original.url''\<rparr>] (Obj [(''toString'', Str ''x'')]) (Some 0)
     (Str ''my.api.url'') = None"
proof -
  have a: "(0::nat) < length [\<lparr>baseURL = Str ''original.url''\<rparr>]" by simp
  have b: "(0::nat) < length [\<lparr>baseURL = Str ''original.url''\<rparr>, \<lparr>baseURL = Str ''other.url''\<rparr>]"
    by simp
  show ?thesis
    using constructor_overwrites_baseURL
        [of "[]" Undefined Undefined 0
            "\<lparr>s_token = Undefined,
              s_authorizedRequestHeaders =
                [(''Content-Type'', ''application/json''),
                 (''Authorization'', ''Bearer undefined'')],
              s_axios = 0\<rparr>"
            "[\<lparr>baseURL = Str ''https://api.energomonitor.com/v1''\<rparr>]" 0 None]
      constructor_overwrites_baseURL
        [of "[]" Undefined "Str ''my.api.url''" 0 undefined undefined 0 None]
      constructor_overwrites_baseURL
        [of "[\<lparr>baseURL = Str ''original.url''\<rparr>]" Undefined "Str ''my.api.url''" 0
            "\<lparr>s_token = Undefined,
              s_authorizedRequestHeaders =
                [(''Content-Type'', ''application/json''),
                 (''Authorization'', ''Bearer undefined'')],
              s_axios = 0\<rparr>"
            "[\<lparr>baseURL = Str ''my.api.url''\<rparr>]" 0 None]
      constructor_overwrites_baseURL
        [of "[\<lparr>baseURL = Str ''original.url''\<rparr>]" Undefined Undefined 0
            undefined undefined 0 None]
      constructor_overwrites_baseURL
        [of "[\<lparr>baseURL = Str ''original.url''\<rparr>, \<lparr>baseURL = Str ''other.url''\<rparr>]"
            "Str ''my-token''" "Str ''my.api.url''" 0 undefined undefined 0 None]
      constructor_overwrites_baseURL
        [of "[\<lparr>baseURL = Str ''original.url''\<rparr>]" "Obj [(''toString'', Str ''x'')]"
            "Str ''my.api.url''" 0 undefined undefined 0 "Some 0"]
    by (simp add: buildAuthorizedRequestHeaders_def)
qed

section \<open>List parameters of getStreams\<close>

lemma qs_encode_type: "qs_encode ''type'' = ''type''"
  by code_simp

lemma qs_encode_channel: "qs_encode ''channel'' = ''channel''"
  by code_simp

lemma qs_encode_data_time_from: "qs_encode ''data_time_from'' = ''data_time_from''"
  by code_simp

lemma qs_encode_data_time_to: "qs_encode ''data_time_to'' = ''data_time_to''"
  by code_simp

lemma qs_elems_repeat:
  "qs_elems False prefix i xs = concat (map (qs_value False prefix) xs)"
  by (induction xs arbitrary: i) simp_all

lemma qs_value_strings:
  "qs_value False prefix (Arr (map Str ts)) =
     map (\<lambda>t. qs_encode prefix @ ''='' @ qs_encode t) ts"
  by (induction ts) (simp_all add: qs_elems_repeat)

lemma qs_value_numbers:
  "qs_value False prefix (Arr (map Num ns)) =
     map (\<lambda>n. qs_encode prefix @ ''='' @ qs_encode (js_number_string n)) ns"
  by (induction ns) (simp_all add: qs_elems_repeat)

lemma qs_value_timestamp:
  "qs_value indices prefix (dateToTimestamp d) =
     [qs_encode prefix @ ''='' @
      qs_encode (case dateToTimestamp d of Num n \<Rightarrow> js_number_string n | _ \<Rightarrow> ''NaN'')]"
  by (cases d) (simp_all add: dateToTimestamp_def)

lemma getStreams_serializer_general:
  "getStreams_serializer (getStreams_params types channels dataTimeFrom dataTimeTo) =
     join ''&''
       (qs_value False ''type'' types @ qs_value False ''channel'' channels @
        (case dataTimeFrom of
           None \<Rightarrow> []
         | Some d \<Rightarrow> qs_value False ''data_time_from'' (dateToTimestamp d)) @
        (case dataTimeTo of
           None \<Rightarrow> []
         | Some d \<Rightarrow> qs_value False ''data_time_to'' (dateToTimestamp d)))"
  by (simp add: getStreams_serializer_def qs_stringify_def getStreams_params_def Let_def
      split: option.split)

lemma getStreams_serializer_lists:
  "getStreams_serializer
     (getStreams_params (Arr (map Str ts)) (Arr (map Num ns)) dataTimeFrom dataTimeTo) =
     join ''&''
       (map (\<lambda>t. ''type='' @ qs_encode t) ts @
        map (\<lambda>n. ''channel='' @ qs_encode (js_number_string n)) ns @
        (case dataTimeFrom of
           None \<Rightarrow> []
         | Some d \<Rightarrow>
             [''data_time_from='' @
              qs_encode (case dateToTimestamp d of Num n \<Rightarrow> js_number_string n | _ \<Rightarrow> ''NaN'')]) @
        (case dataTimeTo of
           None \<Rightarrow> []
         | Some d \<Rightarrow>
             [''data_time_to='' @
              qs_encode (case dateToTimestamp d of Num n \<Rightarrow> js_number_string n | _ \<Rightarrow> ''NaN'')]))"
  unfolding getStreams_serializer_general qs_value_strings qs_value_numbers
    qs_value_timestamp qs_encode_type qs_encode_channel qs_encode_data_time_from
    qs_encode_data_time_to
  by (simp split: option.split)

lemmas serializer_eval =
  getStreams_serializer_def qs_stringify_def getStreams_params_def Let_def qs_encode_def
  qs_encode_char_def unreserved_def hex_byte_def hex_char_def dateToTimestamp_Date

lemma ex_types:
  "getStreams_serializer
     (getStreams_params (Arr [Str ''raw'', Str ''processed'']) Undefined None None) =
     ''type=raw&type=processed''"
  by (simp add: serializer_eval)

lemma ex_channels:
  "getStreams_serializer
     (getStreams_params Undefined (Arr [Num 1, Num 2, Num 3]) None None) =
     ''channel=1&channel=2&channel=3''"
  by (simp add: serializer_eval number_eval)

lemma ex_large_channel:
  "getStreams_serializer
     (getStreams_params Undefined (Arr [Num 1000000000000000000000]) None None) =
     ''channel=1e%2B21''"
  by (simp add: serializer_eval js_number_string_1e21)

lemma ex_dates:
  "getStreams_serializer
     (getStreams_params (Arr [Str ''raw'', Str ''processed'']) Undefined
        (Some (Date 1500)) (Some (Date 1500))) =
     ''type=raw&type=processed&data_time_from=2&data_time_to=2''"
  by (simp add: serializer_eval number_eval)

lemma ex_indices:
  "qs_stringify
     (getStreams_params (Arr [Str ''raw'', Str ''processed'']) Undefined None None) True =
     ''type%5B0%5D=raw&type%5B1%5D=processed''"
  by (simp add: serializer_eval number_eval)

lemma getStreams_requests:
  "requests_of (perform s (GetStreams feedId types channels df dt) tr) =
     (if s_token s = Undefined then []
      else [Get (url_streams feedId)
              \<lparr>c_headers = Some (s_authorizedRequestHeaders s),
               c_params = Some (getStreams_params types channels df dt),
               c_paramsSerializer = Some getStreams_serializer,
               c_auth = None\<rparr>])"
  by (simp add: requests_of_def getStreams_def gate_open gate_closed requests_axios_then Let_def)

text \<open>
  C6, as stated: every list passed as \<open>types\<close> or \<open>channels\<close> is serialized as the key
  repeated once per element, never in a bracketed form. It fails for lists of other
  values than strings and integers: an \<open>undefined\<close> element is left out, so
  \<open>['raw', undefined]\<close> gives the key once for two elements, and an object element gets
  its property name in (encoded) brackets after the key.
\<close>

theorem list_of_other_values_counterexample:
  "getStreams_serializer
     (getStreams_params (Arr [Str ''raw'', Undefined]) Undefined None None) = ''type=raw'' \<and>
   getStreams_serializer
     (getStreams_params (Arr [Obj [(''a'', Str ''b'')]]) Undefined None None) = ''type%5Ba%5D=b''"
  by (simp add: serializer_eval)

text \<open>
  C6, amended. \<open>getStreams\<close> hands the transport its parameters together with a
  serializer of its own, \<open>qs.stringify\<close> with \<open>indices: false\<close>, in place of the
  transport's default. Applied to the parameters of any call, it writes what \<open>types\<close>
  gives under \<open>type\<close>, then what \<open>channels\<close> gives under \<open>channel\<close>, then the two
  timestamps if the dates are given, joined by \<open>&\<close>; and a list gives, element by
  element, what each element gives under the key itself. For a list of strings as
  \<open>types\<close> and a list of integers as \<open>channels\<close>, the documented element types, this is
  the key repeated once per element with the encoded element as value, whether or not
  dates are given: \<open>type=raw&type=processed\<close>, \<open>channel=1&channel=2&channel=3\<close>,
  \<open>channel=1e%2B21\<close> for the number \<open>10^21\<close>. With \<open>indices\<close> left on, the keys would
  carry bracketed indices instead.
\<close>

theorem getStreams_repeats_list_keys:
  "requests_of (perform s (GetStreams feedId types channels dataTimeFrom dataTimeTo) tr) =
     (if s_token s = Undefined then []
      else [Get (url_streams feedId)
              \<lparr>c_headers = Some (s_authorizedRequestHeaders s),
               c_params = Some (getStreams_params types channels dataTimeFrom dataTimeTo),
               c_paramsSerializer = Some getStreams_serializer,
               c_auth = None\<rparr>]) \<and>
   getStreams_serializer (getStreams_params types channels dataTimeFrom dataTimeTo) =
     join ''&''
       (qs_value False ''type'' types @ qs_value False ''channel'' channels @
        (case dataTimeFrom of
           None \<Rightarrow> []
         | Some d \<Rightarrow> qs_value False ''data_time_from'' (dateToTimestamp d)) @
        (case dataTimeTo of
           None \<Rightarrow> []
         | Some d \<Rightarrow> qs_value False ''data_time_to'' (dateToTimestamp d))) \<and>
   qs_value False key (Arr xs) = concat (map (qs_value False key) xs) \<and>
   getStreams_serializer
     (getStreams_params (Arr (map Str ts)) (Arr (map Num ns)) dataTimeFrom dataTimeTo) =
     join ''&''
       (map (\<lambda>t. ''type='' @ qs_encode t) ts @
        map (\<lambda>n. ''channel='' @ qs_encode (js_number_string n)) ns @
        (case dataTimeFrom of
           None \<Rightarrow> []
         | Some d \<Rightarrow>
             [''data_time_from='' @
              qs_encode (case dateToTimestamp d of Num n \<Rightarrow> js_number_string n | _ \<Rightarrow> ''NaN'')]) @
        (case dataTimeTo of
           None \<Rightarrow> []
         | Some d \<Rightarrow>
             [''data_time_to='' @
              qs_encode (case dateToTimestamp d of Num n \<Rightarrow> js_number_string n | _ \<Rightarrow> ''NaN'')])) \<and>
   getStreams_serializer
     (getStreams_params (Arr [Str ''raw'', Str ''processed'']) Undefined None None) =
     ''type=raw&type=processed'' \<and>
   getStreams_serializer
     (getStreams_params Undefined (Arr [Num 1, Num 2, Num 3]) None None) =
     ''channel=1&channel=2&channel=3'' \<and>
   getStreams_serializer
     (getStreams_params Undefined (Arr [Num 1000000000000000000000]) None None) =
     ''channel=1e%2B21'' \<and>
   getStreams_serializer
     (getStreams_params (Arr [Str ''raw'', Str ''processed'']) Undefined
        (Some (Date 1500)) (Some (Date 1500))) =
     ''type=raw&type=processed&data_time_from=2&data_time_to=2'' \<and>
   qs_stringify
     (getStreams_params (Arr [Str ''raw'', Str ''processed'']) Undefined None None) True =
     ''type%5B0%5D=raw&type%5B1%5D=processed''"
proof (intro conjI)
  show "qs_value False key (Arr xs) = concat (map (qs_value False key) xs)"
    by (simp add: qs_elems_repeat)
qed (rule getStreams_requests getStreams_serializer_general getStreams_serializer_lists
    ex_types ex_channels ex_large_channel ex_dates ex_indices)+

theorem getStreams_repeats_list_keys_witness:
  "map (\<lambda>q. map_option
                (\<lambda>f. f (getStreams_params (Arr [Str ''a b'', Str ''c'']) (Arr [Num 7])
                          (Some (Date 1509222580000)) None))
                (c_paramsSerializer (request_config q)))
     (requests_of (perform
        \<lparr>s_token = Str ''my-token'',
         s_authorizedRequestHeaders =
           [(''Content-Type'', ''application/json''), (''Authorization'', ''Bearer my-token'')],
         s_axios = 0\<rparr>
        (GetStreams ''1'' (Arr [Str ''a b'', Str ''c'']) (Arr [Num 7])
           (Some (Date 1509222580000)) None)
        (\<lambda>r. Fulfilled (Arr [])))) =
     [Some ''type=a%20b&type=c&channel=7&data_time_from=1509222580'']"
proof -
  have e: "join ''&''
       (map (\<lambda>t. ''type='' @ qs_encode t) [''a b'', ''c''] @
        map (\<lambda>n. ''channel='' @ qs_encode (js_number_string n)) [7] @
        [''data_time_from='' @
         qs_encode (case dateToTimestamp (Date 1509222580000) of
                      Num n \<Rightarrow> js_number_string n | _ \<Rightarrow> ''NaN'')]) =
       ''type=a%20b&type=c&channel=7&data_time_from=1509222580''"
    by (simp add: serializer_eval number_eval)
  note T = getStreams_repeats_list_keys
      [of "\<lparr>s_token = Str ''my-token'',
            s_authorizedRequestHeaders =
              [(''Content-Type'', ''application/json''), (''Authorization'', ''Bearer my-token'')],
            s_axios = 0\<rparr>" "''1''"
          "Arr [Str ''a b'', Str ''c'']" "Arr [Num 7]" "Some (Date 1509222580000)" None
          "\<lambda>r. Fulfilled (Arr [])" "''type''" "[]"
          "[''a b'', ''c'']" "[7]"]
  from T [THEN conjunct1]
  have req: "requests_of (perform
        \<lparr>s_token = Str ''my-token'',
         s_authorizedRequestHeaders =
           [(''Content-Type'', ''application/json''), (''Authorization'', ''Bearer my-token'')],
         s_axios = 0\<rparr>
        (GetStreams ''1'' (Arr [Str ''a b'', Str ''c'']) (Arr [Num 7])
           (Some (Date 1509222580000)) None)
        (\<lambda>r. Fulfilled (Arr []))) =
      [Get (url_streams ''1'')
         \<lparr>c_headers = Some [(''Content-Type'', ''application/json''),
                            (''Authorization'', ''Bearer my-token'')],
          c_params = Some (getStreams_params (Arr [Str ''a b'', Str ''c'']) (Arr [Num 7])
                             (Some (Date 1509222580000)) None),
          c_paramsSerializer = Some getStreams_serializer, c_auth = None\<rparr>]"
    by simp
  from T [THEN conjunct2, THEN conjunct2, THEN conjunct2, THEN conjunct1] e
  have ser: "getStreams_serializer
       (getStreams_params (Arr [Str ''a b'', Str ''c'']) (Arr [Num 7])
          (Some (Date 1509222580000)) None) =
       ''type=a%20b&type=c&channel=7&data_time_from=1509222580''"
    by simp
  show ?thesis
    unfolding req by (simp add: ser)
qed

section \<open>The date of getNotifications\<close>

lemma is_digit_digit_char: "is_digit (digit_char n)"
proof -
  have "n mod 10 < length ''0123456789''" by simp
  then have "''0123456789'' ! (n mod 10) \<in> set ''0123456789''" by (rule nth_mem)
  then show ?thesis by (simp only: is_digit_def digit_char_def)
qed

lemma matches_append:
  "matches p1 s1 \<Longrightarrow> matches p2 s2 \<Longrightarrow> matches (p1 @ p2) (s1 @ s2)"
  by (induction p1 s1 rule: matches.induct) simp_all

lemma matches_pad: "matches (replicate w (CHR ''d'')) (pad w n)"
proof (induction w arbitrary: n)
  case 0
  then show ?case by simp
next
  case (Suc w)
  have "matches (replicate w (CHR ''d'') @ [CHR ''d'']) (pad w (n div 10) @ [digit_char (n mod 10)])"
    by (rule matches_append [OF Suc]) (simp add: is_digit_digit_char)
  then show ?case by (simp add: replicate_append_same)
qed

lemma matches_pad2: "matches ''dd'' (pad 2 n)"
  using matches_pad [of 2 n] by (simp add: numeral_2_eq_2)

lemma matches_pad3: "matches ''ddd'' (pad 3 n)"
  using matches_pad [of 3 n] by (simp add: numeral_3_eq_3)

lemma matches_pad4: "matches ''dddd'' (pad 4 n)"
proof -
  have e: "(4::nat) = Suc (Suc (Suc (Suc 0)))" by simp
  have r: "replicate 4 (CHR ''d'') = ''dddd''" unfolding e by simp
  from matches_pad [of 4 n] show ?thesis unfolding r .
qed

lemma matches_pad6: "matches ''dddddd'' (pad 6 n)"
proof -
  have e: "(6::nat) = Suc (Suc (Suc (Suc (Suc (Suc 0)))))" by simp
  have r: "replicate 6 (CHR ''d'') = ''dddddd''" unfolding e by simp
  from matches_pad [of 6 n] show ?thesis unfolding r .
qed

lemma matches_time: "matches ''dd:dd:dd.ddd'' (time_string t)"
proof -
  have "matches (''dd'' @ '':'' @ ''dd'' @ '':'' @ ''dd'' @ ''.'' @ ''ddd'') (time_string t)"
    unfolding time_string_def
    by (intro matches_append matches_pad2 matches_pad3) simp_all
  then show ?thesis by simp
qed

lemma matches_tail:
  "matches ''-dd-ddTdd:dd:dd.dddZ''
     (''-'' @ pad 2 m @ ''-'' @ pad 2 d @ ''T'' @ time_string t @ ''Z'')"
proof -
  have "matches (''-'' @ ''dd'' @ ''-'' @ ''dd'' @ ''T'' @ ''dd:dd:dd.ddd'' @ ''Z'')
     (''-'' @ pad 2 m @ ''-'' @ pad 2 d @ ''T'' @ time_string t @ ''Z'')"
    by (intro matches_append matches_pad2 matches_time) simp_all
  then show ?thesis by simp
qed

lemma matches_year:
  "matches ''dddd'' (year_string y) \<or> matches ''+dddddd'' (year_string y) \<or>
   matches ''-dddddd'' (year_string y)"
proof -
  have p: "matches (''+'' @ ''dddddd'') (''+'' @ pad 6 n)" for n
    by (intro matches_append matches_pad6) simp
  have m: "matches (''-'' @ ''dddddd'') (''-'' @ pad 6 n)" for n
    by (intro matches_append matches_pad6) simp
  show ?thesis
    using p m matches_pad4 by (simp add: year_string_def)
qed

lemma iso_example: "iso_of_ms 1492878600000 = ''2017-04-22T16:30:00.000Z''"
  by code_simp

lemma iso8601_ms_iso_of_ms: "iso8601_ms (iso_of_ms ms)"
proof -
  obtain y m d where c: "civil_from_days (ms div 86400000) = (y, m, d)"
    by (cases "civil_from_days (ms div 86400000)")
  let ?tail = "''-'' @ pad 2 (nat m) @ ''-'' @ pad 2 (nat d) @ ''T'' @
          time_string (ms mod 86400000) @ ''Z''"
  have i: "iso_of_ms ms = year_string y @ ?tail"
    by (simp add: iso_of_ms_def c)
  have t: "matches ''-dd-ddTdd:dd:dd.dddZ'' ?tail" by (rule matches_tail)
  from matches_year [of y] show ?thesis
  proof (elim disjE)
    assume "matches ''dddd'' (year_string y)"
    from matches_append [OF this t] show ?thesis
      unfolding iso8601_ms_def i by simp
  next
    assume "matches ''+dddddd'' (year_string y)"
    from matches_append [OF this t] show ?thesis
      unfolding iso8601_ms_def i by simp
  next
    assume "matches ''-dddddd'' (year_string y)"
    from matches_append [OF this t] show ?thesis
      unfolding iso8601_ms_def i by simp
  qed
qed

lemma getNotifications_requests:
  "requests_of (perform s (GetNotifications userId (Some (Date ms))) tr) =
     (if s_token s = Undefined then []
      else [Get (url_notifications userId)
              \<lparr>c_headers = Some (s_authorizedRequestHeaders s),
               c_params = Some [(''created_at_from'', Str (iso_of_ms ms))],
               c_paramsSerializer = None, c_auth = None\<rparr>])"
  by (simp add: requests_of_def getNotifications_def getNotifications_params_def toISOString_def
      gate_open gate_closed requests_axios_then Let_def)

lemma dateToTimestamp_number:
  "(case dateToTimestamp d of Num n \<Rightarrow> True | NaN \<Rightarrow> True | _ \<Rightarrow> False)"
  by (cases d) (simp_all add: dateToTimestamp_def)

text \<open>
  C7, as stated: for every date passed as \<open>createdAtFrom\<close>, the \<open>created_at_from\<close>
  parameter is its ISO 8601 string. It fails for an invalid date, which has no such
  string: \<open>toISOString\<close> raises, no parameter is built and the call throws.
\<close>

theorem invalid_date_has_no_iso_string_counterexample:
  "getNotifications_params (Some InvalidDate) = None \<and>
   outcome_of (perform \<lparr>s_token = Str ''my-token'',
                  s_authorizedRequestHeaders =
                    [(''Content-Type'', ''application/json''),
                     (''Authorization'', ''Bearer my-token'')],
                  s_axios = 0\<rparr>
                 (GetNotifications ''1'' (Some InvalidDate)) (\<lambda>r. Fulfilled (Arr []))) =
     ThrowsRangeError"
  by (simp add: getNotifications_params_def toISOString_def outcome_of_def getNotifications_def)

text \<open>
  C7, amended. For every valid date with time value \<open>ms\<close> passed as \<open>createdAtFrom\<close>,
  the parameters of \<open>getNotifications\<close> are \<open>created_at_from\<close> alone, and its value is
  the string \<open>toISOString\<close> gives: of the form \<open>YYYY-MM-DDTHH:mm:ss.sssZ\<close> (the year
  with a sign and six digits outside 0..9999), \<open>2017-04-22T16:30:00.000Z\<close> for
  2017-04-22 16:30 UTC. With a token set this is the parameter object of the one GET
  issued. It is a string, where the conversion used for every other date parameter gives
  a number. For an invalid date the call throws and issues nothing.
\<close>

theorem getNotifications_sends_iso8601:
  "getNotifications_params (Some (Date ms)) = Some [(''created_at_from'', Str (iso_of_ms ms))] \<and>
   iso8601_ms (iso_of_ms ms) \<and>
   iso_of_ms 1492878600000 = ''2017-04-22T16:30:00.000Z'' \<and>
   requests_of (perform s (GetNotifications userId (Some (Date ms))) tr) =
     (if s_token s = Undefined then []
      else [Get (url_notifications userId)
              \<lparr>c_headers = Some (s_authorizedRequestHeaders s),
               c_params = Some [(''created_at_from'', Str (iso_of_ms ms))],
               c_paramsSerializer = None, c_auth = None\<rparr>]) \<and>
   (case dateToTimestamp d of Num n \<Rightarrow> True | NaN \<Rightarrow> True | _ \<Rightarrow> False) \<and>
   snd (perform s (GetNotifications userId (Some InvalidDate)) tr) = (ThrowsRangeError, [])"
proof (intro conjI)
  show "getNotifications_params (Some (Date ms)) =
          Some [(''created_at_from'', Str (iso_of_ms ms))]"
    by (simp add: getNotifications_params_def toISOString_def)
  show "snd (perform s (GetNotifications userId (Some InvalidDate)) tr) = (ThrowsRangeError, [])"
    by (rule perform_marshalling_throws) simp
qed (rule iso8601_ms_iso_of_ms iso_example getNotifications_requests dateToTimestamp_number)+

theorem getNotifications_sends_iso8601_witness:
  "requests_of (perform \<lparr>s_token = Str ''my-token'',
                  s_authorizedRequestHeaders =
                    [(''Content-Type'', ''application/json''),
                     (''Authorization'', ''Bearer my-token'')],
                  s_axios = 0\<rparr>
                  (GetNotifications ''1'' (Some (Date 1492878600000)))
                  (\<lambda>r. Fulfilled (Arr []))) =
     [Get ''/users/1/notifications''
        \<lparr>c_headers = Some [(''Content-Type'', ''application/json''),
                           (''Authorization'', ''Bearer my-token'')],
         c_params = Some [(''created_at_from'', Str ''2017-04-22T16:30:00.000Z'')],
         c_paramsSerializer = None, c_auth = None\<rparr>]"
  using getNotifications_sends_iso8601
      [of 1492878600000 "\<lparr>s_token = Str ''my-token'',
                  s_authorizedRequestHeaders =
                    [(''Content-Type'', ''application/json''),
                     (''Authorization'', ''Bearer my-token'')],
                  s_axios = 0\<rparr>" "''1''"
          "\<lambda>r. Fulfilled (Arr [])" "Date 0"]
  by (simp add: url_notifications_def)


end
